theory Spec2Isabelle
  imports Main "HOL-Library.Word"
begin

section \<open>JavaScript values\<close>

text \<open>
  The program is TypeScript running on Node. A JavaScript string is a sequence of UTF-16
  code units; it is modelled as the list of its code units, each a number below 65536.
  \<open>js\<close> writes a literal: every character of an Isabelle string literal is an ASCII
  character, whose code unit is its code.
\<close>

type_synonym jsstring = "nat list"

type_synonym bytes = "nat list"

definition js :: "string \<Rightarrow> jsstring" where
  "js s = map of_char s"

text \<open>
  Values that cross an untyped boundary (rows of a result, the arguments of a Mongo
  query, a parsed JSON text, the payload of a connection) are JavaScript values.
  Numbers are the integers; no claim depends on a fraction.
\<close>

datatype jsval =
    JUndefined
  | JNull
  | JBool bool
  | JNum int
  | JStr jsstring
  | JArr "jsval list"
  | JObj "(jsstring \<times> jsval) list"

text \<open>A thrown \<open>Error\<close> object: the fields the program reads are its name, message and code.\<close>

datatype js_error = JsError (name: jsstring) (message: jsstring) (code: jsval)

definition Error :: "jsstring \<Rightarrow> js_error" where
  "Error msg = JsError (js ''Error'') msg JUndefined"

definition TypeError :: "jsstring \<Rightarrow> js_error" where
  "TypeError msg = JsError (js ''TypeError'') msg JUndefined"

text \<open>\<open>x || y\<close> and \<open>if (x)\<close> test whether a value is falsy.\<close>

fun falsy :: "jsval \<Rightarrow> bool" where
  "falsy JUndefined = True"
| "falsy JNull = True"
| "falsy (JBool b) = (\<not> b)"
| "falsy (JNum n) = (n = 0)"
| "falsy (JStr s) = (s = [])"
| "falsy (JArr _) = False"
| "falsy (JObj _) = False"

subsection \<open>String operations of the runtime\<close>

text \<open>\<open>String.prototype.trim\<close> removes white space and line terminators at both ends.\<close>

definition isWhiteSpace :: "nat \<Rightarrow> bool" where
  "isWhiteSpace c \<longleftrightarrow>
     c = 0x09 \<or> c = 0x0A \<or> c = 0x0B \<or> c = 0x0C \<or> c = 0x0D \<or> c = 0x20 \<or> c = 0xA0 \<or>
     c = 0x1680 \<or> (0x2000 \<le> c \<and> c \<le> 0x200A) \<or> c = 0x2028 \<or> c = 0x2029 \<or>
     c = 0x202F \<or> c = 0x205F \<or> c = 0x3000 \<or> c = 0xFEFF"

definition trim :: "jsstring \<Rightarrow> jsstring" where
  "trim s = rev (dropWhile isWhiteSpace (rev (dropWhile isWhiteSpace s)))"

text \<open>\<open>s.startsWith(p)\<close>, and the rest of \<open>s\<close> after a literal prefix \<open>p\<close>.\<close>

fun strip_prefix :: "jsstring \<Rightarrow> jsstring \<Rightarrow> jsstring option" where
  "strip_prefix [] s = Some s"
| "strip_prefix (p # ps) [] = None"
| "strip_prefix (p # ps) (c # cs) = (if p = c then strip_prefix ps cs else None)"

definition startsWith :: "jsstring \<Rightarrow> jsstring \<Rightarrow> bool" where
  "startsWith s p \<longleftrightarrow> strip_prefix p s \<noteq> None"

text \<open>\<open>s.includes(p)\<close>: \<open>p\<close> occurs in \<open>s\<close> at some position.\<close>

fun js_includes :: "jsstring \<Rightarrow> jsstring \<Rightarrow> bool" where
  "js_includes [] p = (p = [])"
| "js_includes (c # cs) p = (startsWith (c # cs) p \<or> js_includes cs p)"

section \<open>The Mongo query interpreter (src/main/db/mongodb/client.ts)\<close>

text \<open>
  \<open>Mongodb.executeQuery\<close> matches the trimmed query against two regular expressions:
  \<^verbatim>\<open>/^db\.([a-zA-Z0-9_]+)\.find\(([\s\S]*?)\)$/\<close> and
  \<^verbatim>\<open>/^db\.([a-zA-Z0-9_]+)\.([a-zA-Z0-9_]+)\(([\s\S]*)\)$/\<close>.
  Neither has a flag, so \<open>^\<close> and \<open>$\<close> are the two ends of the input. A group
  \<open>[a-zA-Z0-9_]+\<close> is followed by a character outside its class, so it can only be the
  longest run of word characters at its position, and the last group is followed by
  \<open>\)$\<close>, so lazy or greedy it is everything up to a closing parenthesis that ends the
  input. The matchers below return the captured groups.
\<close>

definition isWordChar :: "nat \<Rightarrow> bool" where
  "isWordChar c \<longleftrightarrow>
     (0x61 \<le> c \<and> c \<le> 0x7A) \<or> (0x41 \<le> c \<and> c \<le> 0x5A) \<or> (0x30 \<le> c \<and> c \<le> 0x39) \<or> c = 0x5F"

definition match_ident :: "jsstring \<Rightarrow> (jsstring \<times> jsstring) option" where
  "match_ident s =
     (if takeWhile isWordChar s = [] then None
      else Some (takeWhile isWordChar s, dropWhile isWordChar s))"

definition match_args :: "jsstring \<Rightarrow> jsstring option" where
  "match_args s = (if s \<noteq> [] \<and> last s = 0x29 then Some (butlast s) else None)"

definition findMatch :: "jsstring \<Rightarrow> (jsstring \<times> jsstring) option" where
  "findMatch q =
     (case strip_prefix (js ''db.'') q of
        None \<Rightarrow> None
      | Some r0 \<Rightarrow>
         (case match_ident r0 of
            None \<Rightarrow> None
          | Some (collectionName, r1) \<Rightarrow>
             (case strip_prefix (js ''.find('') r1 of
                None \<Rightarrow> None
              | Some r2 \<Rightarrow>
                 (case match_args r2 of
                    None \<Rightarrow> None
                  | Some paramsStr \<Rightarrow> Some (collectionName, paramsStr)))))"

definition collectionMatch :: "jsstring \<Rightarrow> (jsstring \<times> jsstring \<times> jsstring) option" where
  "collectionMatch q =
     (case strip_prefix (js ''db.'') q of
        None \<Rightarrow> None
      | Some r0 \<Rightarrow>
         (case match_ident r0 of
            None \<Rightarrow> None
          | Some (collectionName, r1) \<Rightarrow>
             (case strip_prefix (js ''.'') r1 of
                None \<Rightarrow> None
              | Some r2 \<Rightarrow>
                 (case match_ident r2 of
                    None \<Rightarrow> None
                  | Some (operation, r3) \<Rightarrow>
                     (case strip_prefix (js ''('') r3 of
                        None \<Rightarrow> None
                      | Some r4 \<Rightarrow>
                         (case match_args r4 of
                            None \<Rightarrow> None
                          | Some paramsStr \<Rightarrow> Some (collectionName, operation, paramsStr)))))))"

text \<open>
  The MongoDB driver and the evaluator \<open>new Function\<close> are not part of the repository;
  they are parameters. A call answers or throws; the client of the driver is a handle.
  What the interpreter asks of the database is recorded, in order, next to its result.
\<close>

type_synonym handle = nat

record mongo_driver =
  MongoClient_new :: "jsval \<Rightarrow> js_error + handle"
  client_connect :: "handle \<Rightarrow> js_error option"
  databaseName :: "handle \<Rightarrow> jsstring"
  admin_ping :: "handle \<Rightarrow> js_error option"
  client_close :: "handle \<Rightarrow> js_error option"
  listCollections :: "handle \<Rightarrow> js_error + jsstring list"
  eval_Function :: "jsstring \<Rightarrow> js_error + jsval"
  find_toArray :: "handle \<Rightarrow> jsstring \<Rightarrow> jsval \<Rightarrow> js_error + jsval list"
  aggregate_toArray :: "handle \<Rightarrow> jsstring \<Rightarrow> jsval \<Rightarrow> js_error + jsval list"

datatype mongo_access =
    Collection jsstring
  | Find jsstring jsval
  | Aggregate jsstring jsval

datatype mongo_operation = OpFind | OpAggregate

definition invalid_format :: js_error where
  "invalid_format = Error (js ''Invalid MongoDB query format. Supported operations: find, aggregate'')"

definition parse_query :: "jsstring \<Rightarrow> js_error + (jsstring \<times> mongo_operation \<times> jsstring)" where
  "parse_query query =
     (case findMatch (trim query) of
        Some (collectionName, paramsStr) \<Rightarrow> Inr (collectionName, OpFind, paramsStr)
      | None \<Rightarrow>
         (case collectionMatch (trim query) of
            Some (collectionName, operation, paramsStr) \<Rightarrow>
              if operation = js ''aggregate'' then Inr (collectionName, OpAggregate, paramsStr)
              else Inl invalid_format
          | None \<Rightarrow> Inl invalid_format))"

definition parse_params :: "mongo_driver \<Rightarrow> jsstring \<Rightarrow> js_error + jsval" where
  "parse_params D paramsStr =
     (if paramsStr \<noteq> [] \<and> trim paramsStr \<noteq> [] then
        (case eval_Function D (js ''return '' @ paramsStr) of
           Inl e \<Rightarrow> Inl (Error (js ''Invalid parameters syntax: '' @ message e))
         | Inr v \<Rightarrow> Inr v)
      else Inr JUndefined)"

definition mongo_executeQuery ::
  "mongo_driver \<Rightarrow> handle \<Rightarrow> jsstring \<Rightarrow> (js_error + jsval list) \<times> mongo_access list" where
  "mongo_executeQuery D h query =
     (case parse_query query of
        Inl e \<Rightarrow> (Inl e, [])
      | Inr (collectionName, operation, paramsStr) \<Rightarrow>
         (case parse_params D paramsStr of
            Inl e \<Rightarrow> (Inl e, [Collection collectionName])
          | Inr params \<Rightarrow>
             (case operation of
                OpFind \<Rightarrow>
                  (let filter = (if falsy params then JObj [] else params)
                   in (find_toArray D h collectionName filter,
                       [Collection collectionName, Find collectionName filter]))
              | OpAggregate \<Rightarrow>
                  (let pipeline = (case params of JArr _ \<Rightarrow> params | _ \<Rightarrow> JArr [params])
                   in (aggregate_toArray D h collectionName pipeline,
                       [Collection collectionName, Aggregate collectionName pipeline])))))"

text \<open>A driver for examples: any argument text evaluates to an empty object, and every
  collection is empty.\<close>

definition stub_mongo :: mongo_driver where
  "stub_mongo =
     \<lparr> MongoClient_new = (\<lambda>_. Inr 1), client_connect = (\<lambda>_. None),
       databaseName = (\<lambda>_. js ''shop''), admin_ping = (\<lambda>_. None),
       client_close = (\<lambda>_. None), listCollections = (\<lambda>_. Inr []),
       eval_Function = (\<lambda>_. Inr (JObj [])),
       find_toArray = (\<lambda>_ _ _. Inr []),
       aggregate_toArray = (\<lambda>_ _ _. Inr []) \<rparr>"

section \<open>More of the runtime: property access, conversion to a string, upper case\<close>

text \<open>
  \<open>o.k\<close> throws a \<open>TypeError\<close> on \<open>undefined\<close> and \<open>null\<close>. On an object it is the
  value stored under \<open>k\<close>, or \<open>undefined\<close>. The program reads only names that no
  prototype defines (\<open>filePath\<close>, \<open>host\<close>, \<open>changes\<close>, ...), so on any other value the
  result is \<open>undefined\<close>.
\<close>

definition quote :: "jsstring \<Rightarrow> jsstring" where
  "quote k = [0x27] @ k @ [0x27]"

fun get_prop :: "jsval \<Rightarrow> jsstring \<Rightarrow> js_error + jsval" where
  "get_prop JUndefined k =
     Inl (TypeError (js ''Cannot read properties of undefined (reading '' @ quote k @ js '')''))"
| "get_prop JNull k =
     Inl (TypeError (js ''Cannot read properties of null (reading '' @ quote k @ js '')''))"
| "get_prop (JObj kvs) k = Inr (case map_of kvs k of None \<Rightarrow> JUndefined | Some v \<Rightarrow> v)"
| "get_prop _ k = Inr JUndefined"

text \<open>A further property of a value that a first read has shown not to be \<open>undefined\<close>
  or \<open>null\<close>.\<close>

definition field_of :: "jsval \<Rightarrow> jsstring \<Rightarrow> jsval" where
  "field_of v k = (case get_prop v k of Inl _ \<Rightarrow> JUndefined | Inr x \<Rightarrow> x)"

text \<open>\<open>x || y\<close>\<close>

definition js_or :: "jsval \<Rightarrow> jsval \<Rightarrow> jsval" where
  "js_or x y = (if falsy x then y else x)"

text \<open>Decimal digits of a number, and \<open>ToString\<close> as a template literal applies it.\<close>

fun decimal :: "nat \<Rightarrow> jsstring" where
  "decimal n = (if n < 10 then [0x30 + n] else decimal (n div 10) @ [0x30 + n mod 10])"

declare decimal.simps [simp del]

fun join :: "jsstring \<Rightarrow> jsstring list \<Rightarrow> jsstring" where
  "join sep [] = []"
| "join sep [x] = x"
| "join sep (x # y # ys) = x @ sep @ join sep (y # ys)"

fun ToString :: "jsval \<Rightarrow> jsstring" where
  "ToString JUndefined = js ''undefined''"
| "ToString JNull = js ''null''"
| "ToString (JBool b) = (if b then js ''true'' else js ''false'')"
| "ToString (JNum i) = (if i < 0 then 0x2D # decimal (nat (- i)) else decimal (nat i))"
| "ToString (JStr s) = s"
| "ToString (JArr vs) =
     join [0x2C] (map (\<lambda>v. case v of JUndefined \<Rightarrow> [] | JNull \<Rightarrow> [] | _ \<Rightarrow> ToString v) vs)"
| "ToString (JObj kvs) = js ''[object Object]''"

text \<open>
  \<open>String.prototype.toUpperCase\<close> maps every code point by the Unicode case mapping,
  without looking at its neighbours. On ASCII that is the mapping of \<open>a\<close>-\<open>z\<close> to
  \<open>A\<close>-\<open>Z\<close>; the mapping of the rest of Unicode is a table of the engine, a parameter
  here, applied to each maximal run of code units outside ASCII. \<open>Array.prototype.sort\<close>
  and the collation \<open>localeCompare\<close> are parameters as well.
\<close>

record js_runtime =
  upper_nonascii :: "jsstring \<Rightarrow> jsstring"
  array_sort :: "(jsstring \<Rightarrow> jsstring \<Rightarrow> int) \<Rightarrow> jsstring list \<Rightarrow> jsstring list"
  localeCompare :: "jsstring \<Rightarrow> jsstring \<Rightarrow> int"

definition ascii_upper :: "nat \<Rightarrow> nat" where
  "ascii_upper c = (if 0x61 \<le> c \<and> c \<le> 0x7A then c - 0x20 else c)"

definition flush_run :: "js_runtime \<Rightarrow> jsstring \<Rightarrow> jsstring" where
  "flush_run R run = (if run = [] then [] else upper_nonascii R (rev run))"

fun upper_from :: "js_runtime \<Rightarrow> jsstring \<Rightarrow> jsstring \<Rightarrow> jsstring" where
  "upper_from R run [] = flush_run R run"
| "upper_from R run (c # cs) =
     (if c < 0x80 then flush_run R run @ ascii_upper c # upper_from R [] cs
      else upper_from R (c # run) cs)"

definition toUpperCase :: "js_runtime \<Rightarrow> jsstring \<Rightarrow> jsstring" where
  "toUpperCase R s = upper_from R [] s"

section \<open>The SQLite variant (src/main/db/sqlite.ts)\<close>

text \<open>
  The class holds its configuration and \<open>db\<close>, the handle of better-sqlite3 or \<open>null\<close>.
  The file system and the driver are parameters: a call returns or throws. A method of
  the class returns what it returns or throws, and the object as the call leaves it.
\<close>

text \<open>What \<open>run()\<close> of a prepared statement returns.\<close>

record RunResult =
  changes :: int
  lastInsertRowid :: int

record sqlite_driver =
  dirname :: "jsval \<Rightarrow> js_error + jsstring"
  existsSync :: "jsstring \<Rightarrow> bool"
  mkdirSync :: "jsstring \<Rightarrow> js_error option"
  Database_new :: "jsval \<Rightarrow> jsval \<Rightarrow> js_error + handle"
  pragma :: "handle \<Rightarrow> jsstring \<Rightarrow> js_error option"
  prepare_all :: "handle \<Rightarrow> jsstring \<Rightarrow> js_error + jsval list"
  prepare_run :: "handle \<Rightarrow> jsstring \<Rightarrow> js_error + RunResult"
  close :: "handle \<Rightarrow> js_error option"

record SQLite =
  sqlite_config :: jsval
  db :: "handle option"

definition SQLite_new :: "jsval \<Rightarrow> SQLite" where
  "SQLite_new config = \<lparr> sqlite_config = config, db = None \<rparr>"

fun run_pragmas :: "sqlite_driver \<Rightarrow> handle \<Rightarrow> jsstring list \<Rightarrow> js_error option" where
  "run_pragmas D h [] = None"
| "run_pragmas D h (p # ps) =
     (case pragma D h p of Some e \<Rightarrow> Some e | None \<Rightarrow> run_pragmas D h ps)"

definition connect_pragmas :: "jsstring list" where
  "connect_pragmas =
     [js ''journal_mode = WAL'', js ''synchronous = NORMAL'', js ''cache_size = 1000000'',
      js ''foreign_keys = true'', js ''temp_store = memory'']"

text \<open>The body of the \<open>try\<close> block of \<open>connect\<close>: the handle is assigned as soon as the
  database is open, before the pragmas run.\<close>

definition SQLite_connect_try :: "sqlite_driver \<Rightarrow> SQLite \<Rightarrow> js_error option \<times> SQLite" where
  "SQLite_connect_try D s =
     (case get_prop (sqlite_config s) (js ''filePath'') of
        Inl e \<Rightarrow> (Some e, s)
      | Inr filePath \<Rightarrow>
         (case dirname D filePath of
            Inl e \<Rightarrow> (Some e, s)
          | Inr dbDir \<Rightarrow>
             (case (if existsSync D dbDir then None else mkdirSync D dbDir) of
                Some e \<Rightarrow> (Some e, s)
              | None \<Rightarrow>
                 (case Database_new D filePath
                         (JObj [(js ''readonly'',
                                   js_or (field_of (sqlite_config s) (js ''readonly'')) (JBool False)),
                                (js ''fileMustExist'', JBool False),
                                (js ''timeout'', JNum 5000)]) of
                    Inl e \<Rightarrow> (Some e, s)
                  | Inr h \<Rightarrow> (run_pragmas D h connect_pragmas, s\<lparr>db := Some h\<rparr>)))))"

definition SQLite_connect :: "sqlite_driver \<Rightarrow> SQLite \<Rightarrow> js_error option \<times> SQLite" where
  "SQLite_connect D s =
     (case SQLite_connect_try D s of
        (None, s') \<Rightarrow> (None, s')
      | (Some e, s') \<Rightarrow> (Some (Error (js ''SQLite connection failed: '' @ message e)), s'))"

definition SQLite_disconnect :: "sqlite_driver \<Rightarrow> SQLite \<Rightarrow> js_error option \<times> SQLite" where
  "SQLite_disconnect D s =
     (case db s of
        None \<Rightarrow> (None, s)
      | Some h \<Rightarrow>
         (case close D h of Some e \<Rightarrow> (Some e, s) | None \<Rightarrow> (None, s\<lparr>db := None\<rparr>)))"

definition sqlite_not_established :: js_error where
  "sqlite_not_established = Error (js ''SQLite connection not established'')"

text \<open>The texts of the catalogue queries are written on one line; no result of this
  development depends on them.\<close>

definition tablesQuery :: jsstring where
  "tablesQuery =
     js ''SELECT name FROM sqlite_master WHERE type='' @ quote (js ''table'') @
     js '' AND name NOT LIKE '' @ quote (js ''sqlite_%'') @ js '' ORDER BY name;''"

text \<open>A step of a \<open>map\<close> or a loop can throw: the first error ends it.\<close>

fun map_err :: "('a \<Rightarrow> js_error + 'b) \<Rightarrow> 'a list \<Rightarrow> js_error + 'b list" where
  "map_err f [] = Inr []"
| "map_err f (x # xs) =
     (case f x of
        Inl e \<Rightarrow> Inl e
      | Inr y \<Rightarrow> (case map_err f xs of Inl e \<Rightarrow> Inl e | Inr ys \<Rightarrow> Inr (y # ys)))"

definition strict_eq_num :: "jsval \<Rightarrow> int \<Rightarrow> bool" where
  "strict_eq_num v n = (v = JNum n)"

definition sqlite_column :: "jsval \<Rightarrow> js_error + jsval" where
  "sqlite_column col =
     (case get_prop col (js ''name'') of
        Inl e \<Rightarrow> Inl e
      | Inr nm \<Rightarrow>
          Inr (JObj [(js ''name'', nm), (js ''type'', field_of col (js ''type'')),
                     (js ''is_nullable'',
                        JStr (if strict_eq_num (field_of col (js ''notnull'')) 0 then js ''YES'' else js ''NO'')),
                     (js ''isPrimaryKey'', JBool (strict_eq_num (field_of col (js ''pk'')) 1)),
                     (js ''defaultValue'', field_of col (js ''dflt_value''))]))"

definition sqlite_relationship :: "jsval \<Rightarrow> js_error + jsval" where
  "sqlite_relationship fk =
     (case get_prop fk (js ''from'') of
        Inl e \<Rightarrow> Inl e
      | Inr from \<Rightarrow>
          Inr (JObj [(js ''column'', from),
                     (js ''references'', JObj [(js ''table'', field_of fk (js ''table'')),
                                              (js ''column'', field_of fk (js ''to''))])]))"

text \<open>An object used as a dictionary: assigning a key that is there replaces its value.\<close>

definition obj_set :: "(jsstring \<times> 'v) list \<Rightarrow> jsstring \<Rightarrow> 'v \<Rightarrow> (jsstring \<times> 'v) list" where
  "obj_set kvs k v =
     (if k \<in> set (map fst kvs) then map (\<lambda>(k', v'). if k' = k then (k', v) else (k', v')) kvs
      else kvs @ [(k, v)])"

text \<open>
  \<open>tableSchemas[name] = value\<close> on a plain object. The name \<open>__proto__\<close> is the accessor
  of \<open>Object.prototype\<close>: assigning an object to it sets the prototype and adds no key.
\<close>

definition assign_key :: "(jsstring \<times> 'v) list \<Rightarrow> jsstring \<Rightarrow> 'v \<Rightarrow> (jsstring \<times> 'v) list" where
  "assign_key kvs k v = (if k = js ''__proto__'' then kvs else obj_set kvs k v)"

text \<open>
  \<open>Object.keys\<close> lists the keys that are array indices first (the decimal text of a
  number below \<open>2^32 - 1\<close>, without a leading zero), in ascending order, and then the
  other keys in the order they were added.
\<close>

definition index_value :: "jsstring \<Rightarrow> nat" where
  "index_value k = foldl (\<lambda>n c. 10 * n + (c - 0x30)) 0 k"

definition is_array_index :: "jsstring \<Rightarrow> bool" where
  "is_array_index k \<longleftrightarrow>
     k \<noteq> [] \<and> list_all (\<lambda>c. 0x30 \<le> c \<and> c \<le> 0x39) k \<and> (hd k \<noteq> 0x30 \<or> length k = 1) \<and>
     index_value k < 2 ^ 32 - 1"

definition Object_keys :: "(jsstring \<times> 'v) list \<Rightarrow> jsstring list" where
  "Object_keys kvs =
     sort_key index_value (filter is_array_index (map fst kvs)) @
     filter (\<lambda>k. \<not> is_array_index k) (map fst kvs)"

definition sqlite_table_schema ::
  "sqlite_driver \<Rightarrow> handle \<Rightarrow> jsval \<Rightarrow> js_error + (jsstring \<times> jsval \<times> jsval)" where
  "sqlite_table_schema D h table =
     (case get_prop table (js ''name'') of
        Inl e \<Rightarrow> Inl e
      | Inr nm \<Rightarrow>
         (case prepare_all D h (js ''PRAGMA table_info('' @ ToString nm @ js '')'') of
            Inl e \<Rightarrow> Inl e
          | Inr columns \<Rightarrow>
             (case prepare_all D h (js ''PRAGMA foreign_key_list('' @ ToString nm @ js '')'') of
                Inl e \<Rightarrow> Inl e
              | Inr foreignKeys \<Rightarrow>
                 (case map_err sqlite_column columns of
                    Inl e \<Rightarrow> Inl e
                  | Inr cols \<Rightarrow>
                     (case map_err sqlite_relationship foreignKeys of
                        Inl e \<Rightarrow> Inl e
                      | Inr rels \<Rightarrow> Inr (ToString nm, JArr cols, JArr rels))))))"

definition table_entry :: "jsval \<Rightarrow> (jsstring \<times> jsval \<times> jsval) list \<Rightarrow> jsstring \<Rightarrow> jsval" where
  "table_entry schema tableSchemas nm =
     (case map_of tableSchemas nm of
        None \<Rightarrow> JUndefined
      | Some (cols, rels) \<Rightarrow>
          JObj [(js ''name'', JStr nm), (js ''type'', JStr (js ''table'')), (js ''schema'', schema),
                (js ''columns'', cols), (js ''relationships'', rels)])"

definition SQLite_getSchemaVisualization ::
  "js_runtime \<Rightarrow> sqlite_driver \<Rightarrow> SQLite \<Rightarrow> js_error + jsval list" where
  "SQLite_getSchemaVisualization R D s =
     (case db s of
        None \<Rightarrow> Inl sqlite_not_established
      | Some h \<Rightarrow>
         (case prepare_all D h tablesQuery of
            Inl e \<Rightarrow> Inl e
          | Inr tables \<Rightarrow>
             (case map_err (sqlite_table_schema D h) tables of
                Inl e \<Rightarrow> Inl e
              | Inr entries \<Rightarrow>
                 (let tableSchemas = foldl (\<lambda>acc (k, v). assign_key acc k v) [] entries
                  in Inr (map (table_entry (JStr (js ''main'')) tableSchemas)
                            (array_sort R (localeCompare R) (Object_keys tableSchemas)))))))"

text \<open>\<open>executeQuery\<close>: the test on the trimmed, upper-cased text chooses between
  \<open>all()\<close> and \<open>run()\<close>; the statement prepared is the query as it was given.\<close>

definition is_read_query :: "js_runtime \<Rightarrow> jsstring \<Rightarrow> bool" where
  "is_read_query R query =
     (let trimmedQuery = toUpperCase R (trim query)
      in startsWith trimmedQuery (js ''SELECT'') \<or> startsWith trimmedQuery (js ''WITH'') \<or>
         startsWith trimmedQuery (js ''PRAGMA''))"

definition sqlite_summary :: "RunResult \<Rightarrow> jsval" where
  "sqlite_summary result =
     JObj [(js ''changes'', JNum (changes result)),
           (js ''lastInsertRowid'', JNum (lastInsertRowid result)),
           (js ''message'', JStr (js ''Query executed successfully. '' @ ToString (JNum (changes result)) @
                                 js '' row(s) affected.''))]"

definition SQLite_executeQuery ::
  "js_runtime \<Rightarrow> sqlite_driver \<Rightarrow> SQLite \<Rightarrow> jsstring \<Rightarrow> js_error + jsval list" where
  "SQLite_executeQuery R D s query =
     (case db s of
        None \<Rightarrow> Inl sqlite_not_established
      | Some h \<Rightarrow>
          if is_read_query R query then prepare_all D h query
          else (case prepare_run D h query of
                  Inl e \<Rightarrow> Inl e
                | Inr result \<Rightarrow> Inr [sqlite_summary result]))"

section \<open>The MySQL variant (src/main/db/mysql.ts)\<close>

record mysql_driver =
  createConnection :: "jsval \<Rightarrow> js_error + handle"
  ping :: "handle \<Rightarrow> js_error option"
  connection_end :: "handle \<Rightarrow> js_error option"
  execute :: "handle \<Rightarrow> jsstring \<Rightarrow> jsval list \<Rightarrow> js_error + jsval"

record MySQL =
  mysql_config :: jsval
  connection :: "handle option"

definition MySQL_new :: "jsval \<Rightarrow> MySQL" where
  "MySQL_new config = \<lparr> mysql_config = config, connection = None \<rparr>"

definition MySQL_connect_try :: "mysql_driver \<Rightarrow> MySQL \<Rightarrow> js_error option \<times> MySQL" where
  "MySQL_connect_try D s =
     (case get_prop (mysql_config s) (js ''host'') of
        Inl e \<Rightarrow> (Some e, s)
      | Inr host \<Rightarrow>
         (case createConnection D
                 (JObj [(js ''host'', host), (js ''port'', field_of (mysql_config s) (js ''port'')),
                        (js ''user'', field_of (mysql_config s) (js ''user'')),
                        (js ''password'', field_of (mysql_config s) (js ''password'')),
                        (js ''database'', field_of (mysql_config s) (js ''database'')),
                        (js ''connectTimeout'', JNum 10000)]) of
            Inl e \<Rightarrow> (Some e, s)
          | Inr h \<Rightarrow> (ping D h, s\<lparr>connection := Some h\<rparr>)))"

definition MySQL_connect :: "mysql_driver \<Rightarrow> MySQL \<Rightarrow> js_error option \<times> MySQL" where
  "MySQL_connect D s =
     (case MySQL_connect_try D s of
        (None, s') \<Rightarrow> (None, s')
      | (Some e, s') \<Rightarrow> (Some (Error (js ''MySQL connection failed: '' @ message e)), s'))"

definition MySQL_disconnect :: "mysql_driver \<Rightarrow> MySQL \<Rightarrow> js_error option \<times> MySQL" where
  "MySQL_disconnect D s =
     (case connection s of
        None \<Rightarrow> (None, s)
      | Some h \<Rightarrow>
         (case connection_end D h of
            Some e \<Rightarrow> (Some e, s)
          | None \<Rightarrow> (None, s\<lparr>connection := None\<rparr>)))"

definition mysql_not_established :: js_error where
  "mysql_not_established = Error (js ''MySQL connection not established'')"

definition columnsQuery :: jsstring where
  "columnsQuery = js ''SELECT TABLE_NAME as table_name, COLUMN_NAME as column_name, IS_NULLABLE as is_nullable, DATA_TYPE as data_type, TABLE_SCHEMA as table_schema FROM INFORMATION_SCHEMA.COLUMNS WHERE TABLE_SCHEMA = ? ORDER BY TABLE_NAME, ORDINAL_POSITION;''"

definition relationshipsQuery :: jsstring where
  "relationshipsQuery = js ''SELECT TABLE_NAME as table_name, COLUMN_NAME as column_name, REFERENCED_TABLE_NAME as foreign_table_name, REFERENCED_COLUMN_NAME as foreign_column_name FROM INFORMATION_SCHEMA.KEY_COLUMN_USAGE WHERE TABLE_SCHEMA = ? AND REFERENCED_TABLE_NAME IS NOT NULL ORDER BY TABLE_NAME;''"

text \<open>The rows of a result are an array; \<open>forEach\<close> on anything else throws.\<close>

definition as_rows :: "jsval \<Rightarrow> js_error + jsval list" where
  "as_rows v = (case v of JArr rows \<Rightarrow> Inr rows | _ \<Rightarrow> Inl (TypeError (js ''forEach is not a function'')))"

text \<open>\<open>tables\<close> maps a table name to its columns and its relationships, both in the
  order they were pushed.\<close>

type_synonym table_map = "(jsstring \<times> jsval list \<times> jsval list) list"

text \<open>\<open>tables\<close> is a plain object: reading a name of \<open>Object.prototype\<close> from it
  finds the inherited member, which has no \<open>columns\<close>.\<close>

definition object_prototype_names :: "jsstring list" where
  "object_prototype_names =
     [js ''constructor'', js ''toString'', js ''toLocaleString'', js ''valueOf'',
      js ''hasOwnProperty'', js ''isPrototypeOf'', js ''propertyIsEnumerable'', js ''__proto__'',
      js ''__defineGetter__'', js ''__defineSetter__'', js ''__lookupGetter__'',
      js ''__lookupSetter__'']"

definition push_of_undefined :: js_error where
  "push_of_undefined = TypeError (js ''Cannot read properties of undefined (reading '' @ quote (js ''push'') @ js '')'')"

definition mysql_add_column :: "table_map \<Rightarrow> jsval \<Rightarrow> js_error + table_map" where
  "mysql_add_column tables row =
     (case get_prop row (js ''table_name'') of
        Inl e \<Rightarrow> Inl e
      | Inr table_name \<Rightarrow>
         (let k = ToString table_name;
              col = JObj [(js ''name'', field_of row (js ''column_name'')),
                          (js ''is_nullable'', field_of row (js ''is_nullable'')),
                          (js ''type'', field_of row (js ''data_type''))]
          in case map_of tables k of
               Some (cols, rels) \<Rightarrow> Inr (obj_set tables k (cols @ [col], rels))
             | None \<Rightarrow>
                 if k \<in> set object_prototype_names then Inl push_of_undefined
                 else Inr (tables @ [(k, [col], [])])))"

definition mysql_add_relationship :: "table_map \<Rightarrow> jsval \<Rightarrow> js_error + table_map" where
  "mysql_add_relationship tables row =
     (case get_prop row (js ''table_name'') of
        Inl e \<Rightarrow> Inl e
      | Inr table_name \<Rightarrow>
         (let k = ToString table_name;
              rel = JObj [(js ''column'', field_of row (js ''column_name'')),
                          (js ''references'',
                             JObj [(js ''table'', field_of row (js ''foreign_table_name'')),
                                   (js ''column'', field_of row (js ''foreign_column_name''))])]
          in case map_of tables k of
               Some (cols, rels) \<Rightarrow> Inr (obj_set tables k (cols, rels @ [rel]))
             | None \<Rightarrow>
                 if k \<in> set object_prototype_names then Inl push_of_undefined
                 else Inr tables))"

fun fold_err :: "('s \<Rightarrow> 'a \<Rightarrow> js_error + 's) \<Rightarrow> 's \<Rightarrow> 'a list \<Rightarrow> js_error + 's" where
  "fold_err f s [] = Inr s"
| "fold_err f s (x # xs) = (case f s x of Inl e \<Rightarrow> Inl e | Inr s' \<Rightarrow> fold_err f s' xs)"

definition mysql_table_entry :: "jsval \<Rightarrow> table_map \<Rightarrow> jsstring \<Rightarrow> jsval" where
  "mysql_table_entry schema tables nm =
     (case map_of tables nm of
        None \<Rightarrow> JUndefined
      | Some (cols, rels) \<Rightarrow>
          JObj [(js ''name'', JStr nm), (js ''type'', JStr (js ''table'')), (js ''schema'', schema),
                (js ''columns'', JArr cols), (js ''relationships'', JArr rels)])"

definition MySQL_getSchemaVisualization ::
  "js_runtime \<Rightarrow> mysql_driver \<Rightarrow> MySQL \<Rightarrow> js_error + jsval list" where
  "MySQL_getSchemaVisualization R D s =
     (case connection s of
        None \<Rightarrow> Inl mysql_not_established
      | Some h \<Rightarrow>
         (case get_prop (mysql_config s) (js ''database'') of
            Inl e \<Rightarrow> Inl e
          | Inr database \<Rightarrow>
             (case execute D h columnsQuery [database] of
                Inl e \<Rightarrow> Inl e
              | Inr columnsResult \<Rightarrow>
                 (case execute D h relationshipsQuery [database] of
                    Inl e \<Rightarrow> Inl e
                  | Inr relationshipsResult \<Rightarrow>
                     (case as_rows columnsResult of
                        Inl e \<Rightarrow> Inl e
                      | Inr crows \<Rightarrow>
                         (case fold_err mysql_add_column [] crows of
                            Inl e \<Rightarrow> Inl e
                          | Inr tables1 \<Rightarrow>
                             (case as_rows relationshipsResult of
                                Inl e \<Rightarrow> Inl e
                              | Inr rrows \<Rightarrow>
                                 (case fold_err mysql_add_relationship tables1 rrows of
                                    Inl e \<Rightarrow> Inl e
                                  | Inr tables \<Rightarrow>
                                      Inr (map (mysql_table_entry database tables)
                                             (array_sort R (localeCompare R) (Object_keys tables)))))))))))"

definition mysql_summary :: "jsval \<Rightarrow> js_error + jsval list" where
  "mysql_summary result =
     (case get_prop result (js ''affectedRows'') of
        Inl e \<Rightarrow> Inl e
      | Inr affectedRows \<Rightarrow>
          Inr [JObj [(js ''affectedRows'', affectedRows), (js ''insertId'', field_of result (js ''insertId'')),
                     (js ''changedRows'', js_or (field_of result (js ''changedRows'')) (JNum 0)),
                     (js ''message'',
                        js_or (field_of result (js ''info'')) (JStr (js ''Query executed successfully'')))]])"

definition MySQL_executeQuery :: "mysql_driver \<Rightarrow> MySQL \<Rightarrow> jsstring \<Rightarrow> js_error + jsval list" where
  "MySQL_executeQuery D s query =
     (case connection s of
        None \<Rightarrow> Inl mysql_not_established
      | Some h \<Rightarrow>
         (case execute D h query [] of
            Inl e \<Rightarrow> Inl e
          | Inr rows \<Rightarrow> (case rows of JArr rs \<Rightarrow> Inr rs | _ \<Rightarrow> mysql_summary rows)))"

text \<open>Drivers for examples. In \<open>stub_sqlite\<close> every call succeeds, a read returns one
  row and a write changes one row. In \<open>notadb_sqlite\<close> the file opens, and then every
  statement, the first pragma included, fails. In \<open>noping_mysql\<close> the connection is made
  and the server does not answer the ping.\<close>

definition stub_runtime :: js_runtime where
  "stub_runtime = \<lparr> upper_nonascii = (\<lambda>s. s), array_sort = (\<lambda>_ xs. xs), localeCompare = (\<lambda>_ _. 0) \<rparr>"

definition stub_sqlite :: sqlite_driver where
  "stub_sqlite =
     \<lparr> dirname = (\<lambda>_. Inr (js ''/tmp'')), existsSync = (\<lambda>_. True), mkdirSync = (\<lambda>_. None),
       Database_new = (\<lambda>_ _. Inr 1), pragma = (\<lambda>_ _. None),
       prepare_all = (\<lambda>_ _. Inr [JObj [(js ''id'', JNum 7)]]),
       prepare_run = (\<lambda>_ _. Inr \<lparr> changes = 1, lastInsertRowid = 42 \<rparr>),
       close = (\<lambda>_. None) \<rparr>"

definition not_a_database :: js_error where
  "not_a_database = JsError (js ''SqliteError'') (js ''file is not a database'') (JStr (js ''SQLITE_NOTADB''))"

definition notadb_sqlite :: sqlite_driver where
  "notadb_sqlite =
     \<lparr> dirname = (\<lambda>_. Inr (js ''/tmp'')), existsSync = (\<lambda>_. True), mkdirSync = (\<lambda>_. None),
       Database_new = (\<lambda>_ _. Inr 1), pragma = (\<lambda>_ _. Some not_a_database),
       prepare_all = (\<lambda>_ _. Inl not_a_database),
       prepare_run = (\<lambda>_ _. Inl not_a_database),
       close = (\<lambda>_. None) \<rparr>"

definition stub_mysql :: mysql_driver where
  "stub_mysql =
     \<lparr> createConnection = (\<lambda>_. Inr 1), ping = (\<lambda>_. None), connection_end = (\<lambda>_. None),
       execute = (\<lambda>_ _ _. Inr (JArr [])) \<rparr>"

definition noping_mysql :: mysql_driver where
  "noping_mysql =
     \<lparr> createConnection = (\<lambda>_. Inr 1),
       ping = (\<lambda>_. Some (Error (js ''read ECONNRESET''))),
       connection_end = (\<lambda>_. None),
       execute = (\<lambda>_ _ _. Inl (Error (js ''read ECONNRESET''))) \<rparr>"

definition sqlite_file :: jsval where
  "sqlite_file = JObj [(js ''filePath'', JStr (js ''/tmp/app.db''))]"

definition mysql_server :: jsval where
  "mysql_server = JObj [(js ''host'', JStr (js ''localhost'')), (js ''port'', JNum 3306),
                        (js ''user'', JStr (js ''root'')), (js ''password'', JStr (js ''pw'')),
                        (js ''database'', JStr (js ''shop''))]"

section \<open>The encryption service (src/main/store/crypto.ts)\<close>

subsection \<open>UTF-8, as Node encodes and decodes a string\<close>

text \<open>
  A \<open>Buffer\<close> is a list of bytes. Writing a string as \<open>utf8\<close> encodes each code point;
  a surrogate code unit without its partner is not a code point and is written as the
  three bytes of U+FFFD. \<open>utf8_units\<close> computes the bytes as numbers.
\<close>

type_synonym buffer = "8 word list"

definition is_high :: "nat \<Rightarrow> bool" where
  "is_high c \<longleftrightarrow> 0xD800 \<le> c \<and> c \<le> 0xDBFF"

definition is_low :: "nat \<Rightarrow> bool" where
  "is_low c \<longleftrightarrow> 0xDC00 \<le> c \<and> c \<le> 0xDFFF"

definition replacement_bytes :: "nat list" where
  "replacement_bytes = [0xEF, 0xBF, 0xBD]"

definition enc4 :: "nat \<Rightarrow> nat list" where
  "enc4 cp = [0xF0 + cp div 0x40000, 0x80 + cp div 0x1000 mod 0x40,
              0x80 + cp div 0x40 mod 0x40, 0x80 + cp mod 0x40]"

fun utf8_units :: "jsstring \<Rightarrow> nat list" where
  "utf8_units [] = []"
| "utf8_units (c # cs) =
     (if c < 0x80 then c # utf8_units cs
      else if c < 0x800 then (0xC0 + c div 0x40) # (0x80 + c mod 0x40) # utf8_units cs
      else if is_high c then
        (case cs of
           [] \<Rightarrow> replacement_bytes
         | d # ds \<Rightarrow>
             if is_low d
             then enc4 (0x10000 + (c - 0xD800) * 0x400 + (d - 0xDC00)) @ utf8_units ds
             else replacement_bytes @ utf8_units cs)
      else if is_low c then replacement_bytes @ utf8_units cs
      else (0xE0 + c div 0x1000) # (0x80 + c div 0x40 mod 0x40) # (0x80 + c mod 0x40) #
           utf8_units cs)"

definition utf8_encode :: "jsstring \<Rightarrow> buffer" where
  "utf8_encode s = map of_nat (utf8_units s)"

text \<open>
  Reading bytes as \<open>utf8\<close> follows the decoder of the Encoding Standard: a well-formed
  sequence gives its code point (two code units above U+FFFF), and a byte that cannot
  continue the sequence it is in ends that sequence with one U+FFFD and is read again.
\<close>

definition is_cont :: "nat \<Rightarrow> bool" where
  "is_cont b \<longleftrightarrow> 0x80 \<le> b \<and> b \<le> 0xBF"

definition second_ok :: "nat \<Rightarrow> nat \<Rightarrow> bool" where
  "second_ok b0 b1 \<longleftrightarrow>
     (if b0 = 0xE0 then 0xA0 \<le> b1 \<and> b1 \<le> 0xBF
      else if b0 = 0xED then 0x80 \<le> b1 \<and> b1 \<le> 0x9F
      else if b0 = 0xF0 then 0x90 \<le> b1 \<and> b1 \<le> 0xBF
      else if b0 = 0xF4 then 0x80 \<le> b1 \<and> b1 \<le> 0x8F
      else is_cont b1)"

definition surrogates :: "nat \<Rightarrow> nat list" where
  "surrogates cp = [0xD800 + (cp - 0x10000) div 0x400, 0xDC00 + (cp - 0x10000) mod 0x400]"

fun utf8_dec :: "nat list \<Rightarrow> jsstring" where
  "utf8_dec [] = []"
| "utf8_dec (b0 # bs) =
     (if b0 < 0x80 then b0 # utf8_dec bs
      else if 0xC2 \<le> b0 \<and> b0 \<le> 0xDF then
        (case bs of
           [] \<Rightarrow> [0xFFFD]
         | b1 # r1 \<Rightarrow>
             if is_cont b1 then ((b0 - 0xC0) * 0x40 + (b1 - 0x80)) # utf8_dec r1
             else 0xFFFD # utf8_dec bs)
      else if 0xE0 \<le> b0 \<and> b0 \<le> 0xEF then
        (case bs of
           [] \<Rightarrow> [0xFFFD]
         | b1 # r1 \<Rightarrow>
             if second_ok b0 b1 then
               (case r1 of
                  [] \<Rightarrow> [0xFFFD]
                | b2 # r2 \<Rightarrow>
                    if is_cont b2
                    then ((b0 - 0xE0) * 0x1000 + (b1 - 0x80) * 0x40 + (b2 - 0x80)) # utf8_dec r2
                    else 0xFFFD # utf8_dec r1)
             else 0xFFFD # utf8_dec bs)
      else if 0xF0 \<le> b0 \<and> b0 \<le> 0xF4 then
        (case bs of
           [] \<Rightarrow> [0xFFFD]
         | b1 # r1 \<Rightarrow>
             if second_ok b0 b1 then
               (case r1 of
                  [] \<Rightarrow> [0xFFFD]
                | b2 # r2 \<Rightarrow>
                    if is_cont b2 then
                      (case r2 of
                         [] \<Rightarrow> [0xFFFD]
                       | b3 # r3 \<Rightarrow>
                           if is_cont b3
                           then surrogates ((b0 - 0xF0) * 0x40000 + (b1 - 0x80) * 0x1000 +
                                            (b2 - 0x80) * 0x40 + (b3 - 0x80)) @ utf8_dec r3
                           else 0xFFFD # utf8_dec r2)
                    else 0xFFFD # utf8_dec r1)
             else 0xFFFD # utf8_dec bs)
      else 0xFFFD # utf8_dec bs)"

definition utf8_decode :: "buffer \<Rightarrow> jsstring" where
  "utf8_decode bs = utf8_dec (map unat bs)"

text \<open>A string is well formed when its elements are code units and every surrogate is
  half of a pair.\<close>

fun well_formed :: "jsstring \<Rightarrow> bool" where
  "well_formed [] = True"
| "well_formed (c # cs) =
     (if is_high c then (case cs of [] \<Rightarrow> False | d # ds \<Rightarrow> is_low d \<and> well_formed ds)
      else \<not> is_low c \<and> c < 0x10000 \<and> well_formed cs)"

subsection \<open>The library\<close>

text \<open>
  The primitives of Node that the service calls are parameters: the key derivation
  \<open>scryptSync\<close>, AES-256-GCM, base64 and JSON. \<open>gcm_encrypt\<close> is
  \<open>createCipheriv\<close>, \<open>update\<close>, \<open>final\<close> and \<open>getAuthTag\<close>: from a key, an
  initialisation vector and a plaintext, the ciphertext and the tag.
  \<open>decipher_init\<close> is \<open>createDecipheriv\<close> followed by \<open>setAuthTag\<close>, which throw on
  a vector or a tag of a length that the cipher does not take. \<open>gcm_decrypt\<close> is
  \<open>update\<close> and \<open>final\<close> of the decipher: the plaintext, or the error when the tag does
  not verify. A string piece produced by \<open>update\<close> with an output encoding is joined
  with the piece of \<open>final\<close> across the call, so the two pieces together are the
  encoding of the whole output.
  \<open>json_text\<close> is \<open>JSON.stringify\<close> on a value other than \<open>undefined\<close>, for which
  \<open>JSON.stringify\<close> returns \<open>undefined\<close> and no text.
\<close>

record node_lib =
  scryptSync :: "buffer \<Rightarrow> buffer \<Rightarrow> nat \<Rightarrow> buffer"
  gcm_encrypt :: "buffer \<Rightarrow> buffer \<Rightarrow> buffer \<Rightarrow> buffer \<times> buffer"
  decipher_init :: "buffer \<Rightarrow> buffer \<Rightarrow> buffer \<Rightarrow> js_error option"
  gcm_decrypt :: "buffer \<Rightarrow> buffer \<Rightarrow> buffer \<Rightarrow> buffer \<Rightarrow> js_error + buffer"
  toString_base64 :: "buffer \<Rightarrow> jsstring"
  base64_decode :: "jsstring \<Rightarrow> buffer"
  Buffer_from_other :: "jsval \<Rightarrow> js_error + buffer"
  json_text :: "jsval \<Rightarrow> jsstring"
  JSON_parse :: "jsstring \<Rightarrow> js_error + jsval"

definition JSON_stringify :: "node_lib \<Rightarrow> jsval \<Rightarrow> jsstring option" where
  "JSON_stringify L v = (case v of JUndefined \<Rightarrow> None | _ \<Rightarrow> Some (json_text L v))"

text \<open>\<open>Buffer.from(v, 'base64')\<close> decodes a string and never throws on one; what it does
  with another value is the library's.\<close>

definition Buffer_from_base64 :: "node_lib \<Rightarrow> jsval \<Rightarrow> js_error + buffer" where
  "Buffer_from_base64 L v = (case v of JStr s \<Rightarrow> Inr (base64_decode L s) | _ \<Rightarrow> Buffer_from_other L v)"

definition KEY_LENGTH :: nat where
  "KEY_LENGTH = 32"

definition IV_LENGTH :: nat where
  "IV_LENGTH = 12"

text \<open>
  \<open>encrypt\<close>. The two results of \<open>randomBytes\<close>, the salt of 16 bytes and the vector of
  \<open>IV_LENGTH\<close> bytes, are arguments of the model.
\<close>

definition envelope :: "jsstring \<Rightarrow> jsstring \<Rightarrow> jsstring \<Rightarrow> jsstring \<Rightarrow> jsval" where
  "envelope s i t e =
     JObj [(js ''salt'', JStr s), (js ''iv'', JStr i), (js ''authTag'', JStr t),
           (js ''encrypted'', JStr e)]"

definition encrypt :: "node_lib \<Rightarrow> buffer \<Rightarrow> buffer \<Rightarrow> jsstring \<Rightarrow> jsstring \<Rightarrow> jsstring" where
  "encrypt L salt iv text password =
     (let key = scryptSync L (utf8_encode password) salt KEY_LENGTH;
          (encrypted, authTag) = gcm_encrypt L key iv (utf8_encode text)
      in toString_base64 L
           (utf8_encode
              (json_text L
                 (envelope (toString_base64 L salt) (toString_base64 L iv)
                    (toString_base64 L authTag) (toString_base64 L encrypted)))))"

text \<open>\<open>decrypt\<close>. Every step that can throw is a branch; the plaintext is returned only
  after \<open>final\<close> has verified the tag.\<close>

text \<open>
  \<open>update\<close> of a cipher or decipher takes a string; given anything else that is not a
  buffer it throws the \<open>TypeError\<close> of Node with the code \<open>ERR_INVALID_ARG_TYPE\<close>, whose
  message ends with what was received.
\<close>

definition invalid_data_argument :: "jsstring \<Rightarrow> js_error" where
  "invalid_data_argument received =
     JsError (js ''TypeError'')
       (js ''The '' @ [0x22] @ js ''data'' @ [0x22] @
        js '' argument must be of type string or an instance of Buffer, TypedArray, or DataView. Received '' @
        received)
       (JStr (js ''ERR_INVALID_ARG_TYPE''))"

definition update_input :: "node_lib \<Rightarrow> jsval \<Rightarrow> js_error + buffer" where
  "update_input L v =
     (case v of
        JStr s \<Rightarrow> Inr (base64_decode L s)
      | JUndefined \<Rightarrow> Inl (invalid_data_argument (js ''undefined''))
      | JNull \<Rightarrow> Inl (invalid_data_argument (js ''null''))
      | JBool b \<Rightarrow> Inl (invalid_data_argument (js ''type boolean ('' @ ToString v @ js '')''))
      | JNum n \<Rightarrow> Inl (invalid_data_argument (js ''type number ('' @ ToString v @ js '')''))
      | JArr vs \<Rightarrow> Inl (invalid_data_argument (js ''an instance of Array''))
      | JObj kvs \<Rightarrow> Inl (invalid_data_argument (js ''an instance of Object'')))"

definition decrypt :: "node_lib \<Rightarrow> jsstring \<Rightarrow> jsstring \<Rightarrow> js_error + jsstring" where
  "decrypt L cipherText password =
     (case JSON_parse L (utf8_decode (base64_decode L cipherText)) of
        Inl e \<Rightarrow> Inl e
      | Inr data \<Rightarrow>
         (case get_prop data (js ''salt'') of
            Inl e \<Rightarrow> Inl e
          | Inr data_salt \<Rightarrow>
             (case Buffer_from_base64 L data_salt of
                Inl e \<Rightarrow> Inl e
              | Inr salt \<Rightarrow>
                 (case Buffer_from_base64 L (field_of data (js ''iv'')) of
                    Inl e \<Rightarrow> Inl e
                  | Inr iv \<Rightarrow>
                     (case Buffer_from_base64 L (field_of data (js ''authTag'')) of
                        Inl e \<Rightarrow> Inl e
                      | Inr authTag \<Rightarrow>
                         (let key = scryptSync L (utf8_encode password) salt KEY_LENGTH
                          in (case decipher_init L key iv authTag of
                                Some e \<Rightarrow> Inl e
                              | None \<Rightarrow>
                                 (case update_input L (field_of data (js ''encrypted'')) of
                                    Inl e \<Rightarrow> Inl e
                                  | Inr encrypted \<Rightarrow>
                                     (case gcm_decrypt L key iv authTag encrypted of
                                        Inl e \<Rightarrow> Inl e
                                      | Inr decrypted \<Rightarrow> Inr (utf8_decode decrypted))))))))))"

text \<open>
  What is known of the library. The key has the length asked for. With a key of 32
  bytes and a vector of 12, the decipher accepts the tag that the cipher produced and
  gives the plaintext back. base64 decodes what it encoded. \<open>JSON.parse\<close> reads an
  object of four strings back from its text, and the text that \<open>JSON.stringify\<close> writes
  is a well-formed string (a lone surrogate is written as an escape).
\<close>

definition lib_ok :: "node_lib \<Rightarrow> bool" where
  "lib_ok L \<longleftrightarrow>
     (\<forall>p s n. length (scryptSync L p s n) = n) \<and>
     (\<forall>k iv pt. length k = 32 \<and> length iv = 12 \<longrightarrow>
        decipher_init L k iv (snd (gcm_encrypt L k iv pt)) = None \<and>
        gcm_decrypt L k iv (snd (gcm_encrypt L k iv pt)) (fst (gcm_encrypt L k iv pt)) = Inr pt) \<and>
     (\<forall>bs. base64_decode L (toString_base64 L bs) = bs) \<and>
     (\<forall>s i t e. JSON_parse L (json_text L (envelope s i t e)) = Inr (envelope s i t e)) \<and>
     (\<forall>v. well_formed (json_text L v))"



subsection \<open>A library for examples\<close>

text \<open>
  A small library that has the properties \<open>lib_ok\<close> asks for, so that they can be
  met. The key is the password followed by the salt, cut or padded to the length asked
  for. The cipher adds one to every byte and the tag is the key, the vector and the
  ciphertext in a row; the decipher compares the tag. base64 writes a byte as the code
  unit of the same number. The text of an object of four strings writes a code unit
  \<open>n\<close> as \<open>n\<close> letters \<open>a\<close> and a \<open>b\<close>, and ends each string with a \<open>c\<close>.
\<close>

definition toy_field :: "jsstring \<Rightarrow> jsstring" where
  "toy_field s = concat (map (\<lambda>c. replicate c 0x61 @ [0x62]) s) @ [0x63]"

fun toy_read :: "nat \<Rightarrow> jsstring \<Rightarrow> jsstring \<Rightarrow> (jsstring \<times> jsstring) option" where
  "toy_read n acc [] = None"
| "toy_read n acc (x # xs) =
     (if x = 0x61 then toy_read (Suc n) acc xs
      else if x = 0x62 then toy_read 0 (n # acc) xs
      else if x = 0x63 \<and> n = 0 then Some (rev acc, xs)
      else None)"

definition toy_json_text :: "jsval \<Rightarrow> jsstring" where
  "toy_json_text v =
     (case v of
        JObj [(k1, JStr s), (k2, JStr i), (k3, JStr t), (k4, JStr e)] \<Rightarrow>
          toy_field s @ toy_field i @ toy_field t @ toy_field e
      | _ \<Rightarrow> [])"

definition toy_JSON_parse :: "jsstring \<Rightarrow> js_error + jsval" where
  "toy_JSON_parse text =
     (case toy_read 0 [] text of
        None \<Rightarrow> Inl (JsError (js ''SyntaxError'') (js ''Unexpected token'') JUndefined)
      | Some (s, r1) \<Rightarrow>
         (case toy_read 0 [] r1 of
            None \<Rightarrow> Inl (JsError (js ''SyntaxError'') (js ''Unexpected token'') JUndefined)
          | Some (i, r2) \<Rightarrow>
             (case toy_read 0 [] r2 of
                None \<Rightarrow> Inl (JsError (js ''SyntaxError'') (js ''Unexpected token'') JUndefined)
              | Some (t, r3) \<Rightarrow>
                 (case toy_read 0 [] r3 of
                    None \<Rightarrow> Inl (JsError (js ''SyntaxError'') (js ''Unexpected token'') JUndefined)
                  | Some (e, r4) \<Rightarrow> Inr (envelope s i t e)))))"

definition unable_to_authenticate :: js_error where
  "unable_to_authenticate = Error (js ''Unsupported state or unable to authenticate data'')"

definition toy_lib :: node_lib where
  "toy_lib =
     \<lparr> scryptSync = (\<lambda>p s n. take n (p @ s @ replicate n 0)),
       gcm_encrypt = (\<lambda>k iv pt. (map (\<lambda>b. b + 1) pt, k @ iv @ map (\<lambda>b. b + 1) pt)),
       decipher_init = (\<lambda>k iv tag. None),
       gcm_decrypt = (\<lambda>k iv tag ct.
          if tag = k @ iv @ ct then Inr (map (\<lambda>b. b - 1) ct) else Inl unable_to_authenticate),
       toString_base64 = map unat,
       base64_decode = map of_nat,
       Buffer_from_other = (\<lambda>v. Inl (TypeError (js ''The first argument must be of type string''))),
       json_text = toy_json_text,
       JSON_parse = toy_JSON_parse \<rparr>"

definition toy_salt :: buffer where
  "toy_salt = [1, 2, 3, 4, 5, 6, 7, 8, 9, 10, 11, 12, 13, 14, 15, 16]"

definition toy_iv :: buffer where
  "toy_iv = [21, 22, 23, 24, 25, 26, 27, 28, 29, 30, 31, 32]"

section \<open>The credential store (src/main/store/secure-store.ts)\<close>

text \<open>The values of the enumeration \<open>DbType\<close> are strings.\<close>

definition POSTGRESQL :: jsstring where
  "POSTGRESQL = js ''postgresql''"

definition MONGODB :: jsstring where
  "MONGODB = js ''mongodb''"

definition MYSQL :: jsstring where
  "MYSQL = js ''mysql''"

definition SQLITE3 :: jsstring where
  "SQLITE3 = js ''sqlite3''"

text \<open>
  A \<open>ConnectionConfig\<close> arrives over IPC: its \<open>id\<close>, \<open>name\<close> and \<open>type\<close> are strings, the
  \<open>type\<close> whatever string the caller sent, and each of the four optional payloads is a
  value, \<open>undefined\<close> when it is absent.
\<close>

record ConnectionConfig =
  config_id :: jsstring
  config_name :: jsstring
  config_type :: jsstring
  postgresql :: jsval
  mongodb :: jsval
  mysql :: jsval
  sqlite3 :: jsval

record StoredConnection =
  conn_id :: jsstring
  conn_name :: jsstring
  conn_type :: jsstring
  encryptedConfig :: jsstring

definition getConfig :: "ConnectionConfig \<Rightarrow> jsstring \<Rightarrow> jsval" where
  "getConfig config dbType =
     (if dbType = POSTGRESQL then postgresql config
      else if dbType = MONGODB then mongodb config
      else if dbType = MYSQL then mysql config
      else if dbType = SQLITE3 then sqlite3 config
      else JNull)"

definition getAllConnections :: "StoredConnection list \<Rightarrow> StoredConnection list" where
  "getAllConnections connections = connections"

definition data_argument_error :: js_error where
  "data_argument_error = invalid_data_argument (js ''undefined'')"

text \<open>
  \<open>saveEncryptedConnection\<close>, on the list that the store holds: the result is the error
  thrown, if any, and the list that the store holds afterwards. When \<open>JSON.stringify\<close>
  returns \<open>undefined\<close>, \<open>encrypt\<close> is called with \<open>undefined\<close> and \<open>cipher.update\<close> throws
  before \<open>store.set\<close> is reached.
\<close>

definition saveEncryptedConnection ::
  "node_lib \<Rightarrow> buffer \<Rightarrow> buffer \<Rightarrow> ConnectionConfig \<Rightarrow> jsstring \<Rightarrow> StoredConnection list \<Rightarrow>
   js_error option \<times> StoredConnection list" where
  "saveEncryptedConnection L salt iv config encryptionKey connections =
     (let obj = getConfig config (config_type config)
      in case JSON_stringify L obj of
           None \<Rightarrow> (Some data_argument_error, connections)
         | Some text \<Rightarrow>
             (None,
              getAllConnections connections @
                [\<lparr> conn_id = config_id config, conn_name = config_name config,
                   conn_type = config_type config,
                   encryptedConfig = encrypt L salt iv text encryptionKey \<rparr>]))"

text \<open>
  \<open>getDecryptedConnection\<close> returns a value of type \<open>any\<close>, the object
  \<open>{...connection, [connection.type]: payload}\<close>: the four fields of the stored record,
  and the parsed payload under the key that is the record's type. When the type is the
  name of one of the four fields, the payload takes the place of that field.
\<close>

definition with_payload :: "StoredConnection \<Rightarrow> jsval \<Rightarrow> jsval" where
  "with_payload stored v =
     JObj (obj_set [(js ''id'', JStr (conn_id stored)), (js ''name'', JStr (conn_name stored)),
                    (js ''type'', JStr (conn_type stored)),
                    (js ''encryptedConfig'', JStr (encryptedConfig stored))]
             (conn_type stored) v)"

definition failed_to_decrypt :: js_error where
  "failed_to_decrypt = Error (js ''Failed to decrypt configuration. Wrong encryption key?'')"

definition getDecryptedConnection ::
  "node_lib \<Rightarrow> jsstring \<Rightarrow> jsstring \<Rightarrow> StoredConnection list \<Rightarrow> js_error + jsval" where
  "getDecryptedConnection L ident encryptionKey connections =
     (case find (\<lambda>conn. conn_id conn = ident) (getAllConnections connections) of
        None \<Rightarrow> Inl (Error (js ''Connection not found: '' @ ident))
      | Some stored \<Rightarrow>
         (case decrypt L (encryptedConfig stored) encryptionKey of
            Inl e \<Rightarrow> Inl failed_to_decrypt
          | Inr text \<Rightarrow>
             (case JSON_parse L text of
                Inl e \<Rightarrow> Inl failed_to_decrypt
              | Inr v \<Rightarrow> Inr (with_payload stored v))))"

definition deleteConnection :: "jsstring \<Rightarrow> StoredConnection list \<Rightarrow> StoredConnection list" where
  "deleteConnection ident connections =
     filter (\<lambda>conn. conn_id conn \<noteq> ident) (getAllConnections connections)"

definition updateEncryptedConnection ::
  "jsstring \<Rightarrow> jsstring \<Rightarrow> StoredConnection list \<Rightarrow> StoredConnection list" where
  "updateEncryptedConnection ident nm connections =
     map (\<lambda>conn. if conn_id conn = ident then conn\<lparr>conn_name := nm\<rparr> else conn)
       (getAllConnections connections)"

section \<open>Errors and responses (src/main/utils/error-handler.ts)\<close>

datatype ErrorType =
    CONNECTION_ERROR | QUERY_ERROR | AUTHENTICATION_ERROR | TIMEOUT_ERROR | NETWORK_ERROR
  | FILE_ERROR | VALIDATION_ERROR | ENCRYPTION_ERROR | DATABASE_ERROR | EXPORT_ERROR
  | IMPORT_ERROR | UNKNOWN_ERROR

text \<open>The details of an error are absent, a text, or the stack trace of a thrown error,
  which is a text of the engine. Time stamps and the logging context are left out.\<close>

datatype details = NoDetails | Details jsstring | StackOf js_error

record AppError =
  app_type :: ErrorType
  app_message :: jsstring
  app_details :: details
  app_code :: jsval
  app_retryable :: bool

definition createError :: "ErrorType \<Rightarrow> jsstring \<Rightarrow> details \<Rightarrow> jsval \<Rightarrow> bool \<Rightarrow> AppError" where
  "createError t msg d c r =
     \<lparr> app_type = t, app_message = msg, app_details = d, app_code = c, app_retryable = r \<rparr>"

definition code_is :: "js_error \<Rightarrow> string \<Rightarrow> bool" where
  "code_is e s \<longleftrightarrow> code e = JStr (js s)"

definition message_or :: "js_error \<Rightarrow> string \<Rightarrow> jsstring" where
  "message_or e s = (if message e = [] then js s else message e)"

text \<open>The checks of \<open>handleDatabaseError\<close> that follow the test of the PostgreSQL code.\<close>

definition handleDatabaseError_rest :: "js_error \<Rightarrow> AppError" where
  "handleDatabaseError_rest error =
     (if js_includes (message error) (js ''SQLITE_'') \<and>
         js_includes (message error) (js ''SQLITE_CANTOPEN'') then
        createError FILE_ERROR
          (js ''Cannot open SQLite database file. Please check the file path and permissions.'')
          (Details (message error)) (JStr (js ''SQLITE_CANTOPEN'')) False
      else if js_includes (message error) (js ''SQLITE_'') \<and>
              js_includes (message error) (js ''SQLITE_LOCKED'') then
        createError DATABASE_ERROR (js ''Database is locked. Please try again later.'')
          (Details (message error)) (JStr (js ''SQLITE_LOCKED'')) True
      else if name error = js ''MongoServerError'' \<and> code error = JNum 18 then
        createError AUTHENTICATION_ERROR
          (js ''MongoDB authentication failed. Please check your credentials.'')
          (Details (message error)) (JStr (ToString (code error))) False
      else if js_includes (message error) (js ''timeout'') \<or> code_is error ''ETIMEDOUT'' then
        createError TIMEOUT_ERROR (js ''Connection timeout. Please check your network connection.'')
          (Details (message error)) (code error) True
      else if js_includes (message error) (js ''connect'') \<or> code_is error ''ECONNREFUSED'' then
        createError CONNECTION_ERROR
          (js ''Failed to connect to database. Please check your connection settings.'')
          (Details (message error)) (code error) True
      else
        createError DATABASE_ERROR (message_or error ''An unexpected database error occurred.'')
          (StackOf error) (code error) False)"

text \<open>
  \<open>handleDatabaseError\<close>. After the \<open>switch\<close> on the code, a code that is truthy is
  asked for \<open>startsWith\<close>; on a code that is not a string that call throws.
\<close>

definition handleDatabaseError :: "js_error \<Rightarrow> js_error + AppError" where
  "handleDatabaseError error =
     (if code_is error ''ER_ACCESS_DENIED_ERROR'' \<or> code_is error ''ER_DBACCESS_DENIED_ERROR'' then
        Inr (createError AUTHENTICATION_ERROR
               (js ''Database access denied. Please check your credentials.'')
               (Details (message error)) (code error) False)
      else if code_is error ''ER_BAD_DB_ERROR'' then
        Inr (createError DATABASE_ERROR (js ''Database does not exist or is not accessible.'')
               (Details (message error)) (code error) False)
      else if code_is error ''ECONNREFUSED'' \<or> code_is error ''ENOTFOUND'' \<or>
              code_is error ''ETIMEDOUT'' then
        Inr (createError CONNECTION_ERROR
               (js ''Cannot connect to database server. Please check your connection settings.'')
               (Details (message error)) (code error) True)
      else if code_is error ''ER_PARSE_ERROR'' \<or> code_is error ''ER_SYNTAX_ERROR'' then
        Inr (createError QUERY_ERROR (js ''SQL syntax error in your query.'')
               (Details (message error)) (code error) False)
      else if falsy (code error) then Inr (handleDatabaseError_rest error)
      else (case code error of
              JStr c \<Rightarrow>
                if startsWith c (js ''28'') then
                  Inr (createError AUTHENTICATION_ERROR
                         (js ''PostgreSQL authentication failed. Please check your credentials.'')
                         (Details (message error)) (code error) False)
                else Inr (handleDatabaseError_rest error)
            | _ \<Rightarrow> Inl (TypeError (js ''error.code.startsWith is not a function''))))"

definition handleEncryptionError :: "js_error \<Rightarrow> AppError" where
  "handleEncryptionError error =
     createError ENCRYPTION_ERROR
       (js ''Failed to encrypt/decrypt data. Please check your encryption key.'')
       (Details (message error)) (code error) False"

definition handleUnknownError :: "js_error \<Rightarrow> AppError" where
  "handleUnknownError error =
     createError UNKNOWN_ERROR (message_or error ''An unexpected error occurred.'')
       (StackOf error) (code error) False"

datatype response =
    SuccessResponse (resp_payload: "(jsstring \<times> jsval) list") (resp_message: "jsstring option")
  | ErrorResponse (resp_error: jsstring) (errorType: ErrorType) (errorCode: jsval) (retryable: bool)
      (resp_details: details)

definition formatErrorResponse :: "AppError \<Rightarrow> response" where
  "formatErrorResponse e =
     ErrorResponse (app_message e) (app_type e) (app_code e) (app_retryable e) (app_details e)"

definition formatSuccessResponse :: "(jsstring \<times> jsval) list \<Rightarrow> jsstring option \<Rightarrow> response" where
  "formatSuccessResponse d msg = SuccessResponse d msg"

section \<open>The PostgreSQL and MongoDB variants, and the factory (src/main/db)\<close>

record pg_driver =
  Client_new :: "jsval \<Rightarrow> handle"
  pg_connect :: "handle \<Rightarrow> js_error option"
  pg_end :: "handle \<Rightarrow> js_error option"
  pg_query :: "handle \<Rightarrow> jsstring \<Rightarrow> js_error + jsval list"

record Postgresql =
  pg_config :: jsval
  pg_client :: handle

definition Postgresql_new :: "pg_driver \<Rightarrow> jsval \<Rightarrow> Postgresql" where
  "Postgresql_new D config = \<lparr> pg_config = config, pg_client = Client_new D config \<rparr>"

definition Postgresql_connect :: "pg_driver \<Rightarrow> Postgresql \<Rightarrow> js_error option" where
  "Postgresql_connect D p = pg_connect D (pg_client p)"

definition Postgresql_disconnect :: "pg_driver \<Rightarrow> Postgresql \<Rightarrow> js_error option" where
  "Postgresql_disconnect D p = pg_end D (pg_client p)"

definition Postgresql_executeQuery :: "pg_driver \<Rightarrow> Postgresql \<Rightarrow> jsstring \<Rightarrow> js_error + jsval list" where
  "Postgresql_executeQuery D p query = pg_query D (pg_client p) query"

text \<open>The two catalogue queries are given by their \<open>SELECT\<close> lists; their filters on
  system schemas are left out of the text, and no result of this development depends
  on them.\<close>

definition pg_columnsQuery :: jsstring where
  "pg_columnsQuery = js ''SELECT table_schema, table_name, column_name, is_nullable, data_type FROM information_schema.columns ORDER BY table_schema, table_name, ordinal_position;''"

definition pg_relationshipsQuery :: jsstring where
  "pg_relationshipsQuery = js ''SELECT tc.table_schema, tc.table_name, kcu.column_name, ccu.table_schema AS foreign_table_schema, ccu.table_name AS foreign_table_name, ccu.column_name AS foreign_column_name FROM information_schema.table_constraints AS tc;''"

text \<open>\<open>tables\<close> maps the key \<open>schema.table\<close> to the schema, the name, the columns and
  the relationships of a table.\<close>

type_synonym pg_table_map = "(jsstring \<times> jsval \<times> jsval \<times> jsval list \<times> jsval list) list"

definition pg_add_column :: "pg_table_map \<Rightarrow> jsval \<Rightarrow> js_error + pg_table_map" where
  "pg_add_column tables row =
     (case get_prop row (js ''table_schema'') of
        Inl e \<Rightarrow> Inl e
      | Inr table_schema \<Rightarrow>
         (let table_name = field_of row (js ''table_name'');
              tableKey = ToString table_schema @ js ''.'' @ ToString table_name;
              col = JObj [(js ''name'', field_of row (js ''column_name'')),
                          (js ''is_nullable'', field_of row (js ''is_nullable'')),
                          (js ''type'', field_of row (js ''data_type''))]
          in Inr (case map_of tables tableKey of
                    Some (sc, nm, cols, rels) \<Rightarrow> obj_set tables tableKey (sc, nm, cols @ [col], rels)
                  | None \<Rightarrow> tables @ [(tableKey, table_schema, table_name, [col], [])])))"

definition pg_add_relationship :: "pg_table_map \<Rightarrow> jsval \<Rightarrow> js_error + pg_table_map" where
  "pg_add_relationship tables row =
     (case get_prop row (js ''table_schema'') of
        Inl e \<Rightarrow> Inl e
      | Inr table_schema \<Rightarrow>
         (let tableKey = ToString table_schema @ js ''.'' @ ToString (field_of row (js ''table_name''));
              rel = JObj [(js ''column'', field_of row (js ''column_name'')),
                          (js ''references'',
                             JObj [(js ''table'', field_of row (js ''foreign_table_name'')),
                                   (js ''column'', field_of row (js ''foreign_column_name'')),
                                   (js ''schema'', field_of row (js ''foreign_table_schema''))])]
          in Inr (case map_of tables tableKey of
                    Some (sc, nm, cols, rels) \<Rightarrow> obj_set tables tableKey (sc, nm, cols, rels @ [rel])
                  | None \<Rightarrow> tables)))"

text \<open>The comparison of two keys: the parts before and after the first dot; the schema
  \<open>public\<close> comes first. Every key has a dot.\<close>

definition before_dot :: "jsstring \<Rightarrow> jsstring" where
  "before_dot s = takeWhile (\<lambda>c. c \<noteq> 0x2E) s"

definition after_dot :: "jsstring \<Rightarrow> jsstring" where
  "after_dot s = before_dot (drop 1 (dropWhile (\<lambda>c. c \<noteq> 0x2E) s))"

definition pg_compare :: "js_runtime \<Rightarrow> jsstring \<Rightarrow> jsstring \<Rightarrow> int" where
  "pg_compare R a b =
     (if before_dot a \<noteq> before_dot b then
        (if before_dot a = js ''public'' then - 1
         else if before_dot b = js ''public'' then 1
         else localeCompare R (before_dot a) (before_dot b))
      else localeCompare R (after_dot a) (after_dot b))"

definition pg_table_entry :: "pg_table_map \<Rightarrow> jsstring \<Rightarrow> jsval" where
  "pg_table_entry tables tableKey =
     (case map_of tables tableKey of
        None \<Rightarrow> JUndefined
      | Some (sc, nm, cols, rels) \<Rightarrow>
          JObj [(js ''name'', nm), (js ''type'', JStr (js ''table'')), (js ''schema'', sc),
                (js ''columns'', JArr cols), (js ''relationships'', JArr rels)])"

text \<open>The two queries are started together; the first to fail, in the order they were
  given, is the error of \<open>Promise.all\<close>.\<close>

definition Postgresql_getSchemaVisualization ::
  "js_runtime \<Rightarrow> pg_driver \<Rightarrow> Postgresql \<Rightarrow> js_error + jsval list" where
  "Postgresql_getSchemaVisualization R D p =
     (case pg_query D (pg_client p) pg_columnsQuery of
        Inl e \<Rightarrow> Inl e
      | Inr crows \<Rightarrow>
         (case pg_query D (pg_client p) pg_relationshipsQuery of
            Inl e \<Rightarrow> Inl e
          | Inr rrows \<Rightarrow>
             (case fold_err pg_add_column [] crows of
                Inl e \<Rightarrow> Inl e
              | Inr tables1 \<Rightarrow>
                 (case fold_err pg_add_relationship tables1 rrows of
                    Inl e \<Rightarrow> Inl e
                  | Inr tables \<Rightarrow>
                      Inr (map (pg_table_entry tables)
                             (array_sort R (pg_compare R) (Object_keys tables)))))))"

text \<open>The MongoDB class creates its client in the constructor, which throws on a
  connection string that it cannot parse.\<close>

record Mongodb =
  mongo_config :: jsval
  mongo_client :: handle

definition Mongodb_new :: "mongo_driver \<Rightarrow> jsval \<Rightarrow> js_error + Mongodb" where
  "Mongodb_new D config =
     (case MongoClient_new D config of
        Inl e \<Rightarrow> Inl e
      | Inr h \<Rightarrow> Inr \<lparr> mongo_config = config, mongo_client = h \<rparr>)"

definition Mongodb_connect :: "mongo_driver \<Rightarrow> Mongodb \<Rightarrow> js_error option" where
  "Mongodb_connect D m =
     (case client_connect D (mongo_client m) of
        Some e \<Rightarrow> Some e
      | None \<Rightarrow>
          if databaseName D (mongo_client m) = [] \<or> databaseName D (mongo_client m) = js ''test''
          then Some (Error (js ''Please specify a valid database name in the connection string.''))
          else (case admin_ping D (mongo_client m) of
                  Some err \<Rightarrow> Some (Error (js ''Failed to ping MongoDB: '' @ message err))
                | None \<Rightarrow> None))"

definition Mongodb_disconnect :: "mongo_driver \<Rightarrow> Mongodb \<Rightarrow> js_error option" where
  "Mongodb_disconnect D m = client_close D (mongo_client m)"

definition Mongodb_getSchemaVisualization ::
  "js_runtime \<Rightarrow> mongo_driver \<Rightarrow> Mongodb \<Rightarrow> js_error + jsval list" where
  "Mongodb_getSchemaVisualization R D m =
     (case listCollections D (mongo_client m) of
        Inl e \<Rightarrow> Inl e
      | Inr names \<Rightarrow>
          Inr (map (\<lambda>n. JObj [(js ''name'', JStr n), (js ''type'', JStr (js ''collection''))])
                 (array_sort R (localeCompare R) names)))"

definition Mongodb_executeQuery :: "mongo_driver \<Rightarrow> Mongodb \<Rightarrow> jsstring \<Rightarrow> js_error + jsval list" where
  "Mongodb_executeQuery D m query = fst (mongo_executeQuery D (mongo_client m) query)"

text \<open>The interface \<open>DatabaseClient\<close> has the four variants; a call of one of its
  methods is the method of the variant. The world outside the program is the runtime,
  the library and the four drivers.\<close>

datatype DatabaseClient =
    PostgresqlClient Postgresql
  | MongodbClient Mongodb
  | MySQLClient MySQL
  | SQLiteClient SQLite

record env =
  env_rt :: js_runtime
  env_lib :: node_lib
  env_pg :: pg_driver
  env_mongo :: mongo_driver
  env_mysql :: mysql_driver
  env_sqlite :: sqlite_driver

fun DatabaseClient_connect :: "env \<Rightarrow> DatabaseClient \<Rightarrow> js_error option \<times> DatabaseClient" where
  "DatabaseClient_connect E (PostgresqlClient p) = (Postgresql_connect (env_pg E) p, PostgresqlClient p)"
| "DatabaseClient_connect E (MongodbClient m) = (Mongodb_connect (env_mongo E) m, MongodbClient m)"
| "DatabaseClient_connect E (MySQLClient m) =
     (fst (MySQL_connect (env_mysql E) m), MySQLClient (snd (MySQL_connect (env_mysql E) m)))"
| "DatabaseClient_connect E (SQLiteClient s) =
     (fst (SQLite_connect (env_sqlite E) s), SQLiteClient (snd (SQLite_connect (env_sqlite E) s)))"

fun DatabaseClient_disconnect :: "env \<Rightarrow> DatabaseClient \<Rightarrow> js_error option \<times> DatabaseClient" where
  "DatabaseClient_disconnect E (PostgresqlClient p) =
     (Postgresql_disconnect (env_pg E) p, PostgresqlClient p)"
| "DatabaseClient_disconnect E (MongodbClient m) = (Mongodb_disconnect (env_mongo E) m, MongodbClient m)"
| "DatabaseClient_disconnect E (MySQLClient m) =
     (fst (MySQL_disconnect (env_mysql E) m), MySQLClient (snd (MySQL_disconnect (env_mysql E) m)))"
| "DatabaseClient_disconnect E (SQLiteClient s) =
     (fst (SQLite_disconnect (env_sqlite E) s), SQLiteClient (snd (SQLite_disconnect (env_sqlite E) s)))"

fun DatabaseClient_getSchemaVisualization :: "env \<Rightarrow> DatabaseClient \<Rightarrow> js_error + jsval list" where
  "DatabaseClient_getSchemaVisualization E (PostgresqlClient p) =
     Postgresql_getSchemaVisualization (env_rt E) (env_pg E) p"
| "DatabaseClient_getSchemaVisualization E (MongodbClient m) =
     Mongodb_getSchemaVisualization (env_rt E) (env_mongo E) m"
| "DatabaseClient_getSchemaVisualization E (MySQLClient m) =
     MySQL_getSchemaVisualization (env_rt E) (env_mysql E) m"
| "DatabaseClient_getSchemaVisualization E (SQLiteClient s) =
     SQLite_getSchemaVisualization (env_rt E) (env_sqlite E) s"

fun DatabaseClient_executeQuery :: "env \<Rightarrow> DatabaseClient \<Rightarrow> jsstring \<Rightarrow> js_error + jsval list" where
  "DatabaseClient_executeQuery E (PostgresqlClient p) q = Postgresql_executeQuery (env_pg E) p q"
| "DatabaseClient_executeQuery E (MongodbClient m) q = Mongodb_executeQuery (env_mongo E) m q"
| "DatabaseClient_executeQuery E (MySQLClient m) q = MySQL_executeQuery (env_mysql E) m q"
| "DatabaseClient_executeQuery E (SQLiteClient s) q =
     SQLite_executeQuery (env_rt E) (env_sqlite E) s q"

text \<open>
  The factory is given a \<open>ConnectionConfig\<close> by the handlers that received one over IPC,
  and the object of \<open>getDecryptedConnection\<close> by \<open>CONNECT_DB\<close>. It reads \<open>config.type\<close> and
  the payload of that type from the object it is given, whatever these are.
\<close>

definition unsupported_type :: "jsval \<Rightarrow> js_error" where
  "unsupported_type t = Error (js ''Unsupported database type: '' @ ToString t)"

definition createDatabaseClient :: "env \<Rightarrow> jsval \<Rightarrow> js_error + DatabaseClient" where
  "createDatabaseClient E config =
     (case get_prop config (js ''type'') of
        Inl e \<Rightarrow> Inl e
      | Inr t \<Rightarrow>
          if t = JStr POSTGRESQL then
            Inr (PostgresqlClient (Postgresql_new (env_pg E) (field_of config (js ''postgresql''))))
          else if t = JStr MONGODB then
            (case Mongodb_new (env_mongo E) (field_of config (js ''mongodb'')) of
               Inl e \<Rightarrow> Inl e
             | Inr m \<Rightarrow> Inr (MongodbClient m))
          else if t = JStr MYSQL then Inr (MySQLClient (MySQL_new (field_of config (js ''mysql''))))
          else if t = JStr SQLITE3 then Inr (SQLiteClient (SQLite_new (field_of config (js ''sqlite3''))))
          else Inl (unsupported_type t))"

text \<open>A \<open>ConnectionConfig\<close> as the object that it is; a payload that is absent is a field
  that is \<open>undefined\<close>.\<close>

definition config_object :: "ConnectionConfig \<Rightarrow> jsval" where
  "config_object config =
     JObj [(js ''id'', JStr (config_id config)), (js ''name'', JStr (config_name config)),
           (js ''type'', JStr (config_type config)), (js ''postgresql'', postgresql config),
           (js ''mongodb'', mongodb config), (js ''mysql'', mysql config),
           (js ''sqlite3'', sqlite3 config)]"

section \<open>The connection manager (src/main/connection/manager.ts)\<close>

record ClientInstance =
  ci_type :: jsval
  ci_client :: DatabaseClient
  ci_tables :: "jsval list option"
  lastUsed :: nat

text \<open>
  The state of the main process: the list of the credential store, the registry
  \<open>ACTIVE_CLIENTS\<close>, the query history with its size limit, and a record of what was
  done to clients, registry, store and log, in order: a client of a type was
  constructed, \<open>connect\<close> returned, \<open>disconnect\<close> returned (for the connection of an
  id), an entry of the registry was set or deleted, the store was written, an error
  was logged.
\<close>

datatype effect =
    ClientCreated jsval
  | ClientConnected
  | ClientDisconnected jsstring
  | RegistrySet jsstring
  | RegistryDelete jsstring
  | StoreSet
  | ErrorLogged js_error

record history_item =
  h_connectionId :: jsstring
  h_connectionName :: jsstring
  h_query :: jsstring
  h_success :: bool
  h_errorMessage :: "jsstring option"
  h_resultCount :: nat

record app_state =
  connections :: "StoredConnection list"
  ACTIVE_CLIENTS :: "jsstring \<rightharpoonup> ClientInstance"
  history :: "history_item list"
  maxHistoryItems :: nat
  effects :: "effect list"

definition did :: "effect list \<Rightarrow> app_state \<Rightarrow> app_state" where
  "did es st = st\<lparr>effects := effects st @ es\<rparr>"

definition getActiveClient :: "jsstring \<Rightarrow> app_state \<Rightarrow> ClientInstance option" where
  "getActiveClient ident st = ACTIVE_CLIENTS st ident"

definition getSchemaVisualization ::
  "env \<Rightarrow> nat \<Rightarrow> jsstring \<Rightarrow> jsval \<Rightarrow> app_state \<Rightarrow> (js_error + jsval list) \<times> app_state" where
  "getSchemaVisualization E now ident config st =
     (case createDatabaseClient E config of
        Inl e \<Rightarrow> (Inl e, st)
      | Inr c \<Rightarrow>
         (case DatabaseClient_connect E c of
            (Some e, c') \<Rightarrow> (Inl e, did [ClientCreated (field_of config (js ''type''))] st)
          | (None, c') \<Rightarrow>
             (case DatabaseClient_getSchemaVisualization E c' of
                Inl e \<Rightarrow>
                  (Inl e, did [ClientCreated (field_of config (js ''type'')), ClientConnected] st)
              | Inr tables \<Rightarrow>
                  (Inr tables,
                   did [ClientCreated (field_of config (js ''type'')), ClientConnected,
                        RegistrySet ident]
                     (st\<lparr>ACTIVE_CLIENTS := (ACTIVE_CLIENTS st)
                           (ident \<mapsto> \<lparr> ci_type = field_of config (js ''type''), ci_client = c',
                                       ci_tables = Some tables, lastUsed = now \<rparr>)\<rparr>)))))"

text \<open>\<open>removeActiveClient\<close> calls \<open>disconnect\<close> on a client of type \<open>postgresql\<close> only; an
  error of the disconnect is logged and dropped; the entry is deleted, and the client
  with it.\<close>

definition removeActiveClient :: "env \<Rightarrow> jsstring \<Rightarrow> app_state \<Rightarrow> app_state" where
  "removeActiveClient E ident st =
     (case ACTIVE_CLIENTS st ident of
        None \<Rightarrow> st
      | Some instance \<Rightarrow>
          did ((if ci_type instance = JStr POSTGRESQL then
                  (case fst (DatabaseClient_disconnect E (ci_client instance)) of
                     None \<Rightarrow> [ClientDisconnected ident]
                   | Some err \<Rightarrow> [ErrorLogged err])
                else []) @
               [RegistryDelete ident])
            (st\<lparr>ACTIVE_CLIENTS := (ACTIVE_CLIENTS st)(ident := None)\<rparr>))"

section \<open>The handlers (src/main/ipc/handlers.ts)\<close>

text \<open>A handler returns a response, or throws when its own \<open>catch\<close> block throws, and
  leaves a state.\<close>

definition tables_payload :: "jsval list \<Rightarrow> (jsstring \<times> jsval) list" where
  "tables_payload tables = [(js ''tables'', JArr tables)]"

definition respond_database_error :: "js_error \<Rightarrow> js_error + response" where
  "respond_database_error error =
     (case handleDatabaseError error of
        Inl e \<Rightarrow> Inl e
      | Inr appError \<Rightarrow> Inr (formatErrorResponse appError))"

definition CONNECT_DB_catch :: "js_error \<Rightarrow> js_error + response" where
  "CONNECT_DB_catch error =
     (if js_includes (message error) (js ''decrypt'') \<or> js_includes (message error) (js ''key'')
      then Inr (formatErrorResponse (handleEncryptionError error))
      else respond_database_error error)"

definition CONNECT_DB ::
  "env \<Rightarrow> nat \<Rightarrow> jsstring \<Rightarrow> jsstring \<Rightarrow> app_state \<Rightarrow> (js_error + response) \<times> app_state" where
  "CONNECT_DB E now ident encryptionKey st =
     (case getDecryptedConnection (env_lib E) ident encryptionKey (connections st) of
        Inl error \<Rightarrow> (CONNECT_DB_catch error, st)
      | Inr config \<Rightarrow>
         (case getActiveClient ident st of
            Some existingClient \<Rightarrow>
              (Inr (formatSuccessResponse
                      (tables_payload (case ci_tables existingClient of None \<Rightarrow> [] | Some t \<Rightarrow> t))
                      None), st)
          | None \<Rightarrow>
             (case getSchemaVisualization E now ident config st of
                (Inl error, st') \<Rightarrow> (CONNECT_DB_catch error, st')
              | (Inr tables, st') \<Rightarrow>
                  (Inr (formatSuccessResponse (tables_payload tables)
                          (Some (js ''Connected successfully''))), st'))))"

definition no_active_connection :: AppError where
  "no_active_connection =
     createError CONNECTION_ERROR
       (js ''No active database connection found. Please connect to a database first.'')
       NoDetails (JStr (js ''NO_ACTIVE_CONNECTION'')) True"

definition addToHistory :: "history_item \<Rightarrow> app_state \<Rightarrow> app_state" where
  "addToHistory item st = st\<lparr>history := take (maxHistoryItems st) (item # history st)\<rparr>"

definition connectionName_of :: "jsstring \<Rightarrow> app_state \<Rightarrow> jsstring" where
  "connectionName_of ident st =
     (case find (\<lambda>conn. conn_id conn = ident) (getAllConnections (connections st)) of
        None \<Rightarrow> js ''Unknown Connection''
      | Some conn \<Rightarrow> if conn_name conn = [] then js ''Unknown Connection'' else conn_name conn)"

text \<open>\<open>RUN_QUERY\<close>. The elapsed time, formatted, is an argument.\<close>

definition RUN_QUERY ::
  "env \<Rightarrow> jsstring \<Rightarrow> jsstring \<Rightarrow> jsstring \<Rightarrow> app_state \<Rightarrow> (js_error + response) \<times> app_state" where
  "RUN_QUERY E elapsed ident query st =
     (case getActiveClient ident st of
        None \<Rightarrow> (Inr (formatErrorResponse no_active_connection), st)
      | Some clientInstance \<Rightarrow>
         (case DatabaseClient_executeQuery E (ci_client clientInstance) query of
            Inr result \<Rightarrow>
              (Inr (formatSuccessResponse [(js ''result'', JArr result)]
                      (Some (js ''Query executed successfully in '' @ elapsed @ js ''ms''))),
               addToHistory
                 \<lparr> h_connectionId = ident, h_connectionName = connectionName_of ident st,
                   h_query = trim query, h_success = True, h_errorMessage = None,
                   h_resultCount = length result \<rparr> st)
          | Inl error \<Rightarrow>
              (respond_database_error error,
               addToHistory
                 \<lparr> h_connectionId = ident, h_connectionName = connectionName_of ident st,
                   h_query = trim query, h_success = False, h_errorMessage = Some (message error),
                   h_resultCount = 0 \<rparr> st)))"

definition DISCONNECT_DB :: "env \<Rightarrow> jsstring \<Rightarrow> app_state \<Rightarrow> (js_error + response) \<times> app_state" where
  "DISCONNECT_DB E ident st =
     (Inr (formatSuccessResponse [] (Some (js ''Database disconnected successfully''))),
      removeActiveClient E ident st)"

definition DELETE_CONNECTION :: "env \<Rightarrow> jsstring \<Rightarrow> app_state \<Rightarrow> (js_error + response) \<times> app_state" where
  "DELETE_CONNECTION E ident st =
     (let st1 = (case getActiveClient ident st of
                   Some client \<Rightarrow> removeActiveClient E ident st
                 | None \<Rightarrow> st);
          st2 = did [StoreSet] (st1\<lparr>connections := deleteConnection ident (connections st1)\<rparr>)
      in (Inr (formatSuccessResponse [] (Some (js ''Connection deleted successfully''))), st2))"

definition SAVE_CONNECTION_catch :: "js_error \<Rightarrow> js_error + response" where
  "SAVE_CONNECTION_catch error =
     (if js_includes (message error) (js ''encrypt'') \<or> js_includes (message error) (js ''key'')
      then Inr (formatErrorResponse (handleEncryptionError error))
      else respond_database_error error)"

definition SAVE_CONNECTION ::
  "env \<Rightarrow> buffer \<Rightarrow> buffer \<Rightarrow> ConnectionConfig \<Rightarrow> jsstring \<Rightarrow> app_state \<Rightarrow>
   (js_error + response) \<times> app_state" where
  "SAVE_CONNECTION E salt iv config encryptionKey st =
     (case createDatabaseClient E (config_object config) of
        Inl error \<Rightarrow> (SAVE_CONNECTION_catch error, st)
      | Inr c \<Rightarrow>
         (case DatabaseClient_connect E c of
            (Some error, c') \<Rightarrow>
              (SAVE_CONNECTION_catch error, did [ClientCreated (JStr (config_type config))] st)
          | (None, c') \<Rightarrow>
             (case DatabaseClient_getSchemaVisualization E c' of
                Inl error \<Rightarrow>
                  (SAVE_CONNECTION_catch error,
                   did [ClientCreated (JStr (config_type config)), ClientConnected] st)
              | Inr tables \<Rightarrow>
                 (case saveEncryptedConnection (env_lib E) salt iv config encryptionKey (connections st) of
                    (Some error, connections') \<Rightarrow>
                      (SAVE_CONNECTION_catch error,
                       did [ClientCreated (JStr (config_type config)), ClientConnected]
                         (st\<lparr>connections := connections'\<rparr>))
                  | (None, connections') \<Rightarrow>
                     (let st1 = did [ClientCreated (JStr (config_type config)), ClientConnected, StoreSet]
                                  (st\<lparr>connections := connections'\<rparr>)
                      in case fst (DatabaseClient_disconnect E c') of
                           Some error \<Rightarrow> (SAVE_CONNECTION_catch error, st1)
                         | None \<Rightarrow>
                            (Inr (formatSuccessResponse (tables_payload tables)
                                    (Some (js ''Connection saved successfully''))),
                             did [ClientDisconnected (config_id config)] st1))))))"

text \<open>An environment and states for examples.\<close>

definition stub_pg :: pg_driver where
  "stub_pg = \<lparr> Client_new = (\<lambda>_. 1), pg_connect = (\<lambda>_. None), pg_end = (\<lambda>_. None),
               pg_query = (\<lambda>_ _. Inr []) \<rparr>"

definition stub_env :: env where
  "stub_env = \<lparr> env_rt = stub_runtime, env_lib = toy_lib, env_pg = stub_pg,
                env_mongo = stub_mongo, env_mysql = stub_mysql, env_sqlite = stub_sqlite \<rparr>"

definition mysql_payload :: jsval where
  "mysql_payload = JObj [(js ''host'', JStr (js ''localhost'')), (js ''user'', JStr (js ''root'')),
                         (js ''password'', JStr (js ''pw'')), (js ''database'', JStr (js ''shop''))]"

definition shop_config :: ConnectionConfig where
  "shop_config = \<lparr> config_id = js ''1700000000000'', config_name = js ''Shop'',
                    config_type = MYSQL, postgresql = JUndefined, mongodb = JUndefined,
                    mysql = mysql_payload, sqlite3 = JUndefined \<rparr>"

definition shop_record :: StoredConnection where
  "shop_record = \<lparr> conn_id = js ''1700000000000'', conn_name = js ''Shop'', conn_type = MYSQL,
                    encryptedConfig =
                      encrypt toy_lib toy_salt toy_iv (json_text toy_lib mysql_payload) (js ''secret'') \<rparr>"

definition shop_entry :: ClientInstance where
  "shop_entry = \<lparr> ci_type = JStr MYSQL,
                   ci_client = MySQLClient \<lparr> mysql_config = mysql_payload, connection = Some 1 \<rparr>,
                   ci_tables = Some [JObj [(js ''name'', JStr (js ''orders''))]], lastUsed = 5 \<rparr>"

definition idle_state :: app_state where
  "idle_state = \<lparr> connections = [shop_record], ACTIVE_CLIENTS = Map.empty, history = [],
                   maxHistoryItems = 1000, effects = [] \<rparr>"

definition live_state :: app_state where
  "live_state = \<lparr> connections = [shop_record],
                   ACTIVE_CLIENTS = [js ''1700000000000'' \<mapsto> shop_entry], history = [],
                   maxHistoryItems = 1000, effects = [] \<rparr>"

definition oracle_config :: ConnectionConfig where
  "oracle_config = \<lparr> config_id = js ''7'', config_name = js ''Legacy'', config_type = js ''oracle'',
                      postgresql = JUndefined, mongodb = JUndefined, mysql = JUndefined,
                      sqlite3 = JUndefined \<rparr>"

text \<open>A configuration without the payload of its type, and a state with a live
  PostgreSQL client.\<close>

definition bare_config :: ConnectionConfig where
  "bare_config = shop_config\<lparr>mysql := JUndefined\<rparr>"

definition ledger_payload :: jsval where
  "ledger_payload = JObj [(js ''host'', JStr (js ''localhost'')), (js ''port'', JNum 5432),
                          (js ''user'', JStr (js ''postgres'')), (js ''password'', JStr (js ''pw'')),
                          (js ''database'', JStr (js ''ledger''))]"

definition ledger_record :: StoredConnection where
  "ledger_record = \<lparr> conn_id = js ''1700000000001'', conn_name = js ''Ledger'',
                      conn_type = POSTGRESQL,
                      encryptedConfig =
                        encrypt toy_lib toy_salt toy_iv (json_text toy_lib ledger_payload) (js ''secret'') \<rparr>"

definition ledger_entry :: ClientInstance where
  "ledger_entry = \<lparr> ci_type = JStr POSTGRESQL,
                     ci_client = PostgresqlClient \<lparr> pg_config = ledger_payload, pg_client = 1 \<rparr>,
                     ci_tables = Some [], lastUsed = 6 \<rparr>"

definition ledger_state :: app_state where
  "ledger_state = \<lparr> connections = [ledger_record],
                     ACTIVE_CLIENTS = [js ''1700000000001'' \<mapsto> ledger_entry], history = [],
                     maxHistoryItems = 1000, effects = [] \<rparr>"

section \<open>UTF-8: decoding what was encoded\<close>

lemma split3:
  fixes c :: nat
  shows "c div 0x1000 * 0x1000 + c div 0x40 mod 0x40 * 0x40 + c mod 0x40 = c"
proof -
  have "c mod (0x40 * 0x40) = 0x40 * (c div 0x40 mod 0x40) + c mod 0x40"
    by (rule mod_mult2_eq)
  then have "c mod 0x1000 = 0x40 * (c div 0x40 mod 0x40) + c mod 0x40"
    by simp
  then show ?thesis
    using div_mult_mod_eq [of c "0x1000"] by simp
qed

lemma split4:
  fixes c :: nat
  shows "c div 0x40000 * 0x40000 + c div 0x1000 mod 0x40 * 0x1000 + c div 0x40 mod 0x40 * 0x40 +
         c mod 0x40 = c"
proof -
  have "c mod (0x1000 * 0x40) = 0x1000 * (c div 0x1000 mod 0x40) + c mod 0x1000"
    by (rule mod_mult2_eq)
  then have 1: "c mod 0x40000 = 0x1000 * (c div 0x1000 mod 0x40) + c mod 0x1000"
    by simp
  have "c mod (0x40 * 0x40) = 0x40 * (c div 0x40 mod 0x40) + c mod 0x40"
    by (rule mod_mult2_eq)
  then have 2: "c mod 0x1000 = 0x40 * (c div 0x40 mod 0x40) + c mod 0x40"
    by simp
  show ?thesis
    using div_mult_mod_eq [of c "0x40000"] 1 2 by simp
qed

lemma three_facts:
  fixes c :: nat
  assumes "0x800 \<le> c" and "c < 0x10000" and "c < 0xD800 \<or> 0xDFFF < c"
  defines "a \<equiv> c div 0x1000" and "b \<equiv> c div 0x40 mod 0x40"
  shows "a \<le> 15" and "a = 0 \<longrightarrow> 0x20 \<le> b" and "a = 13 \<longrightarrow> b < 0x20" and "b < 0x40"
proof -
  define d where "d = c mod 0x40"
  have eq: "a * 0x1000 + b * 0x40 + d = c"
    unfolding a_def b_def d_def by (rule split3)
  have bb: "b < 0x40" and bd: "d < 0x40"
    unfolding b_def d_def by simp_all
  show "a \<le> 15" using eq assms(2) by arith
  show "a = 0 \<longrightarrow> 0x20 \<le> b" using eq bb bd assms(1) by arith
  show "a = 13 \<longrightarrow> b < 0x20" using eq bb bd assms(3) by arith
  show "b < 0x40" by (rule bb)
qed

lemma four_facts:
  fixes c :: nat
  assumes "0x10000 \<le> c" and "c \<le> 0x10FFFF"
  defines "a \<equiv> c div 0x40000" and "b \<equiv> c div 0x1000 mod 0x40"
  shows "a \<le> 4" and "a = 0 \<longrightarrow> 0x10 \<le> b" and "a = 4 \<longrightarrow> b \<le> 0xF" and "b < 0x40"
proof -
  define d where "d = c div 0x40 mod 0x40"
  define e where "e = c mod 0x40"
  have eq: "a * 0x40000 + b * 0x1000 + d * 0x40 + e = c"
    unfolding a_def b_def d_def e_def by (rule split4)
  have bb: "b < 0x40" and bd: "d < 0x40" and be: "e < 0x40"
    unfolding b_def d_def e_def by simp_all
  show "a \<le> 4" using eq assms(2) by arith
  show "a = 0 \<longrightarrow> 0x10 \<le> b" using eq bb bd be assms(1) by arith
  show "a = 4 \<longrightarrow> b \<le> 0xF" using eq bb bd be assms(2) by arith
  show "b < 0x40" by (rule bb)
qed

lemma sur_hi:
  fixes c d :: nat
  assumes "0xD800 \<le> c" and "0xDC00 \<le> d" and "d \<le> 0xDFFF"
  shows "0xD800 + ((c - 0xD800) * 0x400 + (d - 0xDC00)) div 0x400 = c"
proof -
  have "d - 0xDC00 < 0x400" using assms by arith
  then have "((c - 0xD800) * 0x400 + (d - 0xDC00)) div 0x400 = c - 0xD800"
    by simp
  then show ?thesis using assms(1) by simp
qed

lemma sur_lo:
  fixes c d :: nat
  assumes "0xDC00 \<le> d" and "d \<le> 0xDFFF"
  shows "0xDC00 + ((c - 0xD800) * 0x400 + (d - 0xDC00)) mod 0x400 = d"
proof -
  have "d - 0xDC00 < 0x400" using assms by arith
  then have "((c - 0xD800) * 0x400 + (d - 0xDC00)) mod 0x400 = d - 0xDC00"
    by simp
  then show ?thesis using assms(1) by simp
qed

lemma dec1: "b < 0x80 \<Longrightarrow> utf8_dec (b # bs) = b # utf8_dec bs"
  by simp

lemma dec2:
  "0xC2 \<le> b0 \<Longrightarrow> b0 \<le> 0xDF \<Longrightarrow> is_cont b1 \<Longrightarrow>
   utf8_dec (b0 # b1 # bs) = ((b0 - 0xC0) * 0x40 + (b1 - 0x80)) # utf8_dec bs"
  by simp

lemma dec3:
  "0xE0 \<le> b0 \<Longrightarrow> b0 \<le> 0xEF \<Longrightarrow> second_ok b0 b1 \<Longrightarrow> is_cont b2 \<Longrightarrow>
   utf8_dec (b0 # b1 # b2 # bs) =
     ((b0 - 0xE0) * 0x1000 + (b1 - 0x80) * 0x40 + (b2 - 0x80)) # utf8_dec bs"
  by simp

lemma dec4:
  "0xF0 \<le> b0 \<Longrightarrow> b0 \<le> 0xF4 \<Longrightarrow> second_ok b0 b1 \<Longrightarrow> is_cont b2 \<Longrightarrow> is_cont b3 \<Longrightarrow>
   utf8_dec (b0 # b1 # b2 # b3 # bs) =
     surrogates ((b0 - 0xF0) * 0x40000 + (b1 - 0x80) * 0x1000 + (b2 - 0x80) * 0x40 + (b3 - 0x80)) @
     utf8_dec bs"
  by simp

lemma is_cont_mod: "is_cont (0x80 + x mod 0x40)"
  unfolding is_cont_def by simp

lemma dec_two_bytes:
  assumes "0x80 \<le> c" and "c < 0x800"
  shows "utf8_dec ((0xC0 + c div 0x40) # (0x80 + c mod 0x40) # bs) = c # utf8_dec bs"
proof -
  have a: "0xC2 \<le> 0xC0 + c div 0x40" "0xC0 + c div 0x40 \<le> 0xDF"
    using assms by arith+
  have "utf8_dec ((0xC0 + c div 0x40) # (0x80 + c mod 0x40) # bs) =
        ((0xC0 + c div 0x40 - 0xC0) * 0x40 + (0x80 + c mod 0x40 - 0x80)) # utf8_dec bs"
    by (rule dec2 [OF a is_cont_mod])
  then show ?thesis
    by (simp del: utf8_dec.simps)
qed

lemma dec_three_bytes:
  assumes "0x800 \<le> c" and "c < 0x10000" and "\<not> is_high c" and "\<not> is_low c"
  shows "utf8_dec ((0xE0 + c div 0x1000) # (0x80 + c div 0x40 mod 0x40) # (0x80 + c mod 0x40) # bs)
         = c # utf8_dec bs"
proof -
  have s: "c < 0xD800 \<or> 0xDFFF < c"
    using assms(3,4) unfolding is_high_def is_low_def by arith
  note f = three_facts [OF assms(1,2) s]
  have a: "0xE0 \<le> 0xE0 + c div 0x1000" "0xE0 + c div 0x1000 \<le> 0xEF"
    using f(1) by simp_all
  have b: "second_ok (0xE0 + c div 0x1000) (0x80 + c div 0x40 mod 0x40)"
    unfolding second_ok_def is_cont_def using f by auto
  have v: "(0xE0 + c div 0x1000 - 0xE0) * 0x1000 + (0x80 + c div 0x40 mod 0x40 - 0x80) * 0x40 +
           (0x80 + c mod 0x40 - 0x80) = c"
    using split3 [of c] by simp
  have "utf8_dec ((0xE0 + c div 0x1000) # (0x80 + c div 0x40 mod 0x40) # (0x80 + c mod 0x40) # bs) =
        ((0xE0 + c div 0x1000 - 0xE0) * 0x1000 + (0x80 + c div 0x40 mod 0x40 - 0x80) * 0x40 +
         (0x80 + c mod 0x40 - 0x80)) # utf8_dec bs"
    by (rule dec3 [OF a b is_cont_mod])
  then show ?thesis
    unfolding v .
qed

lemma dec_four_bytes:
  assumes "is_high c" and "is_low d"
  shows "utf8_dec (enc4 (0x10000 + (c - 0xD800) * 0x400 + (d - 0xDC00)) @ bs) = c # d # utf8_dec bs"
proof -
  define cp where "cp = 0x10000 + (c - 0xD800) * 0x400 + (d - 0xDC00)"
  have r: "0x10000 \<le> cp" "cp \<le> 0x10FFFF"
    using assms unfolding cp_def is_high_def is_low_def by arith+
  note f = four_facts [OF r]
  have a: "0xF0 \<le> 0xF0 + cp div 0x40000" "0xF0 + cp div 0x40000 \<le> 0xF4"
    using f(1) by simp_all
  have b: "second_ok (0xF0 + cp div 0x40000) (0x80 + cp div 0x1000 mod 0x40)"
    unfolding second_ok_def is_cont_def using f by auto
  have s: "surrogates cp = [c, d]"
  proof -
    have "cp - 0x10000 = (c - 0xD800) * 0x400 + (d - 0xDC00)"
      unfolding cp_def by simp
    then show ?thesis
      using assms sur_hi [of c d] sur_lo [of d c]
      unfolding surrogates_def is_high_def is_low_def by simp
  qed
  have v: "(0xF0 + cp div 0x40000 - 0xF0) * 0x40000 + (0x80 + cp div 0x1000 mod 0x40 - 0x80) * 0x1000 +
           (0x80 + cp div 0x40 mod 0x40 - 0x80) * 0x40 + (0x80 + cp mod 0x40 - 0x80) = cp"
    using split4 [of cp] by simp
  have "utf8_dec ((0xF0 + cp div 0x40000) # (0x80 + cp div 0x1000 mod 0x40) #
                  (0x80 + cp div 0x40 mod 0x40) # (0x80 + cp mod 0x40) # bs) =
        surrogates ((0xF0 + cp div 0x40000 - 0xF0) * 0x40000 +
                    (0x80 + cp div 0x1000 mod 0x40 - 0x80) * 0x1000 +
                    (0x80 + cp div 0x40 mod 0x40 - 0x80) * 0x40 + (0x80 + cp mod 0x40 - 0x80)) @
        utf8_dec bs"
    by (rule dec4 [OF a b is_cont_mod is_cont_mod])
  then have "utf8_dec (enc4 cp @ bs) = surrogates cp @ utf8_dec bs"
    unfolding v enc4_def by (simp del: utf8_dec.simps)
  then have "utf8_dec (enc4 cp @ bs) = c # d # utf8_dec bs"
    by (simp add: s del: utf8_dec.simps)
  then show ?thesis
    unfolding cp_def .
qed

lemma dec_units: "well_formed s \<Longrightarrow> utf8_dec (utf8_units s) = s"
proof (induction s rule: utf8_units.induct)
  case 1
  then show ?case by simp
next
  case (2 c cs)
  show ?case
  proof (cases "is_high c")
    case True
    then obtain d ds where cs: "cs = d # ds" and d: "is_low d" and wf: "well_formed ds"
      using "2.prems" by (auto split: list.splits)
    have big: "\<not> c < 0x80" "\<not> c < 0x800"
      using True unfolding is_high_def by arith+
    have "utf8_dec (utf8_units ds) = ds"
      using "2.IH"(3) [OF big True cs d] wf .
    then show ?thesis
      using True d big cs dec_four_bytes [OF True d, of "utf8_units ds"]
      by (simp del: utf8_dec.simps)
  next
    case False
    then have wf: "\<not> is_low c" "c < 0x10000" "well_formed cs"
      using "2.prems" by auto
    show ?thesis
    proof (cases "c < 0x80")
      case True
      then show ?thesis
        using "2.IH"(1) wf by simp
    next
      case F1: False
      show ?thesis
      proof (cases "c < 0x800")
        case True
        then show ?thesis
          using "2.IH"(2) [OF F1 True] wf F1 dec_two_bytes [of c "utf8_units cs"]
          by (simp del: utf8_dec.simps)
      next
        case F2: False
        then show ?thesis
          using "2.IH"(6) [OF F1 F2 False wf(1)] wf F1 False
            dec_three_bytes [of c "utf8_units cs"]
          by (simp del: utf8_dec.simps)
      qed
    qed
  qed
qed

lemma units_bytes: "well_formed s \<Longrightarrow> b \<in> set (utf8_units s) \<Longrightarrow> b < 256"
proof (induction s rule: utf8_units.induct)
  case 1
  then show ?case by simp
next
  case (2 c cs)
  show ?case
  proof (cases "is_high c")
    case True
    then obtain d ds where cs: "cs = d # ds" and d: "is_low d" and wf: "well_formed ds"
      using "2.prems" by (auto split: list.splits)
    have big: "\<not> c < 0x80" "\<not> c < 0x800"
      using True unfolding is_high_def by arith+
    define cp where "cp = 0x10000 + (c - 0xD800) * 0x400 + (d - 0xDC00)"
    have r: "0x10000 \<le> cp" "cp \<le> 0x10FFFF"
      using True d unfolding cp_def is_high_def is_low_def by arith+
    have "b \<in> set (enc4 cp) \<or> b \<in> set (utf8_units ds)"
      using "2.prems"(2) True d big cs by (simp add: cp_def)
    moreover have "b \<in> set (enc4 cp) \<Longrightarrow> b < 256"
      using four_facts(1) [OF r] unfolding enc4_def by auto
    ultimately show ?thesis
      using "2.IH"(3) [OF big True cs d wf] by blast
  next
    case False
    then have wf: "\<not> is_low c" "c < 0x10000" "well_formed cs"
      using "2.prems" by auto
    show ?thesis
    proof (cases "c < 0x80")
      case True
      then show ?thesis
        using "2.IH"(1) [OF True wf(3)] "2.prems"(2) by auto
    next
      case F1: False
      show ?thesis
      proof (cases "c < 0x800")
        case True
        have "b = 0xC0 + c div 0x40 \<or> b = 0x80 + c mod 0x40 \<or> b \<in> set (utf8_units cs)"
          using "2.prems"(2) F1 True by simp
        moreover have "c div 0x40 < 0x20"
          using True by arith
        ultimately show ?thesis
          using "2.IH"(2) [OF F1 True wf(3)] by auto
      next
        case F2: False
        have "b = 0xE0 + c div 0x1000 \<or> b = 0x80 + c div 0x40 mod 0x40 \<or> b = 0x80 + c mod 0x40 \<or>
              b \<in> set (utf8_units cs)"
          using "2.prems"(2) F1 F2 False wf(1) by simp
        moreover have "c div 0x1000 < 0x10"
          using wf(2) by arith
        ultimately show ?thesis
          using "2.IH"(6) [OF F1 F2 False wf(1) wf(3)] by auto
      qed
    qed
  qed
qed

lemma utf8_roundtrip: "well_formed s \<Longrightarrow> utf8_decode (utf8_encode s) = s"
proof -
  assume wf: "well_formed s"
  have "map unat (map of_nat (utf8_units s) :: 8 word list) = utf8_units s"
    using units_bytes [OF wf] by (simp add: map_idI unat_of_nat)
  then show ?thesis
    using dec_units [OF wf] by (simp add: utf8_decode_def utf8_encode_def)
qed

section \<open>Results on the encryption service\<close>

subsection \<open>The example library has the properties of the library\<close>

lemma toy_read_letters: "toy_read n acc (replicate m 0x61 @ r) = toy_read (n + m) acc r"
  by (induction m arbitrary: n) simp_all

lemma toy_read_units:
  "toy_read 0 acc (concat (map (\<lambda>c. replicate c 0x61 @ [0x62]) s) @ 0x63 # r) = Some (rev acc @ s, r)"
proof (induction s arbitrary: acc)
  case Nil
  then show ?case by simp
next
  case (Cons c s)
  have "toy_read 0 acc (replicate c 0x61 @ 0x62 # concat (map (\<lambda>c. replicate c 0x61 @ [0x62]) s) @ 0x63 # r)
        = toy_read 0 (c # acc) (concat (map (\<lambda>c. replicate c 0x61 @ [0x62]) s) @ 0x63 # r)"
    using toy_read_letters [of 0 acc c] by simp
  then show ?case
    using Cons.IH [of "c # acc"] by simp
qed

lemma toy_read_field: "toy_read 0 [] (toy_field s @ r) = Some (s, r)"
  using toy_read_units [of "[]" s r] by (simp add: toy_field_def)

lemma toy_parse_text:
  "toy_JSON_parse (toy_json_text (envelope s i t e)) = Inr (envelope s i t e)"
proof -
  have "toy_json_text (envelope s i t e) = toy_field s @ toy_field i @ toy_field t @ toy_field e @ []"
    by (simp add: toy_json_text_def envelope_def)
  then show ?thesis
    by (simp add: toy_JSON_parse_def toy_read_field del: append_Nil2)
qed

lemma ascii_well_formed: "\<forall>c \<in> set s. c < 0x80 \<Longrightarrow> well_formed s"
  by (induction s) (auto simp: is_high_def is_low_def)

lemma toy_field_ascii: "c \<in> set (toy_field s) \<Longrightarrow> c < 0x80"
  by (auto simp: toy_field_def split: if_splits)

lemma toy_text_well_formed: "well_formed (toy_json_text v)"
proof -
  have "\<forall>c \<in> set (toy_json_text v). c < 0x80"
    by (auto simp: toy_json_text_def dest: toy_field_ascii
          split: jsval.splits list.splits prod.splits)
  then show ?thesis
    by (rule ascii_well_formed)
qed

lemma toy_lib_ok: "lib_ok toy_lib"
proof -
  have 1: "length (scryptSync toy_lib p s n) = n" for p s n
    by (simp add: toy_lib_def)
  have 2: "decipher_init toy_lib k iv (snd (gcm_encrypt toy_lib k iv pt)) = None \<and>
           gcm_decrypt toy_lib k iv (snd (gcm_encrypt toy_lib k iv pt)) (fst (gcm_encrypt toy_lib k iv pt))
             = Inr pt" for k iv pt
    by (simp add: toy_lib_def comp_def)
  have 3: "base64_decode toy_lib (toString_base64 toy_lib bs) = bs" for bs
    by (simp add: toy_lib_def comp_def)
  have 4: "JSON_parse toy_lib (json_text toy_lib (envelope s i t e)) = Inr (envelope s i t e)" for s i t e
    using toy_parse_text by (simp add: toy_lib_def)
  have 5: "well_formed (json_text toy_lib v)" for v
    using toy_text_well_formed by (simp add: toy_lib_def)
  show ?thesis
    unfolding lib_ok_def using 1 2 3 4 5 by blast
qed

subsection \<open>What decrypt makes of an envelope that encrypt wrote\<close>

text \<open>
  The envelope goes through JSON, UTF-8 and base64 and comes back as it was:
  \<open>decrypt\<close> hands the decipher the salt, the vector, the tag and the ciphertext that
  \<open>encrypt\<close> produced, with the key derived from its own password.
\<close>

lemma decrypt_of_encrypt:
  assumes "lib_ok L"
  shows "decrypt L (encrypt L salt iv text p1) p2 =
     (let k1 = scryptSync L (utf8_encode p1) salt KEY_LENGTH;
          k2 = scryptSync L (utf8_encode p2) salt KEY_LENGTH;
          ct = fst (gcm_encrypt L k1 iv (utf8_encode text));
          tag = snd (gcm_encrypt L k1 iv (utf8_encode text))
      in case decipher_init L k2 iv tag of
           Some e \<Rightarrow> Inl e
         | None \<Rightarrow>
            (case gcm_decrypt L k2 iv tag ct of
               Inl e \<Rightarrow> Inl e
             | Inr decrypted \<Rightarrow> Inr (utf8_decode decrypted)))"
proof -
  define k1 where "k1 = scryptSync L (utf8_encode p1) salt KEY_LENGTH"
  define ct where "ct = fst (gcm_encrypt L k1 iv (utf8_encode text))"
  define tag where "tag = snd (gcm_encrypt L k1 iv (utf8_encode text))"
  define env where "env = envelope (toString_base64 L salt) (toString_base64 L iv)
                            (toString_base64 L tag) (toString_base64 L ct)"
  have b64: "base64_decode L (toString_base64 L bs) = bs" for bs
    using assms by (simp add: lib_ok_def)
  have wf: "well_formed (json_text L env)"
    using assms by (simp add: lib_ok_def)
  have parse: "JSON_parse L (json_text L env) = Inr env"
    using assms unfolding env_def lib_ok_def by blast
  have enc: "encrypt L salt iv text p1 = toString_base64 L (utf8_encode (json_text L env))"
    by (simp add: encrypt_def Let_def k1_def ct_def tag_def env_def split: prod.splits)
  have data: "JSON_parse L (utf8_decode (base64_decode L (encrypt L salt iv text p1))) = Inr env"
    using parse utf8_roundtrip [OF wf] by (simp add: enc b64)
  have fields: "get_prop env (js ''salt'') = Inr (JStr (toString_base64 L salt))"
    "field_of env (js ''iv'') = JStr (toString_base64 L iv)"
    "field_of env (js ''authTag'') = JStr (toString_base64 L tag)"
    "field_of env (js ''encrypted'') = JStr (toString_base64 L ct)"
    by (simp_all add: env_def envelope_def field_of_def js_def)
  show ?thesis
    unfolding decrypt_def data
    by (simp add: fields Buffer_from_base64_def update_input_def b64 Let_def
          k1_def ct_def tag_def split: option.split sum.split)
qed

lemma decrypt_same_key:
  assumes "lib_ok L" and "length iv = IV_LENGTH" and "utf8_encode p1 = utf8_encode p2"
  shows "decrypt L (encrypt L salt iv text p1) p2 = Inr (utf8_decode (utf8_encode text))"
proof -
  define k where "k = scryptSync L (utf8_encode p2) salt KEY_LENGTH"
  have lk: "length k = 32"
    using assms(1) by (simp add: lib_ok_def k_def KEY_LENGTH_def)
  have liv: "length iv = 12"
    using assms(2) by (simp add: IV_LENGTH_def)
  have "decipher_init L k iv (snd (gcm_encrypt L k iv (utf8_encode text))) = None \<and>
        gcm_decrypt L k iv (snd (gcm_encrypt L k iv (utf8_encode text)))
          (fst (gcm_encrypt L k iv (utf8_encode text))) = Inr (utf8_encode text)"
    using assms(1) lk liv unfolding lib_ok_def by blast
  then show ?thesis
    unfolding decrypt_of_encrypt [OF assms(1)] assms(3) k_def [symmetric] by (simp add: Let_def)
qed

lemma lone_surrogate_bytes:
  "utf8_encode [0xD800] = utf8_encode [0xFFFD]" "utf8_encode [0xD800] = utf8_encode [0xDC00]"
  "utf8_decode (utf8_encode [0xD800]) = [0xFFFD]"
  by (simp_all add: utf8_encode_def utf8_decode_def is_high_def is_low_def replacement_bytes_def
        second_ok_def is_cont_def)

lemma toy_iv_length: "length toy_iv = IV_LENGTH"
  by (simp add: toy_iv_def IV_LENGTH_def)

lemma braces_well_formed: "well_formed (js ''{}'')"
  by (simp add: js_def is_high_def is_low_def)

text \<open>
  C1, as the code has it. The plaintext is written to the cipher as UTF-8, and read
  back as UTF-8. For every well-formed string \<open>s\<close> (no surrogate code unit without its
  partner), every passphrase, salt and vector of 12 bytes, decrypting the envelope of
  \<open>s\<close> with the same passphrase returns \<open>s\<close>, given the library's own round trips
  (\<open>lib_ok\<close>).
\<close>

theorem decrypt_encrypt_roundtrip:
  assumes "lib_ok L" and "length iv = IV_LENGTH" and "well_formed s"
  shows "decrypt L (encrypt L salt iv s p) p = Inr s"
  using decrypt_same_key [OF assms(1,2), of p p salt s] utf8_roundtrip [OF assms(3)] by simp

theorem decrypt_encrypt_roundtrip_witness:
  "decrypt toy_lib (encrypt toy_lib toy_salt toy_iv (js ''{}'') (js ''secret'')) (js ''secret'')
   = Inr (js ''{}'')"
  using decrypt_encrypt_roundtrip [OF toy_lib_ok toy_iv_length braces_well_formed] .

text \<open>
  C1 as it is stated holds for every string. The string of the one code unit D800, a
  high surrogate with no partner, is encrypted as the three bytes of U+FFFD, and comes
  back as U+FFFD.
\<close>

theorem lone_surrogate_not_returned:
  "lib_ok toy_lib \<and> length toy_iv = IV_LENGTH \<and>
   decrypt toy_lib (encrypt toy_lib toy_salt toy_iv [0xD800] (js ''secret'')) (js ''secret'')
     = Inr [0xFFFD] \<and>
   Inr [0xFFFD] \<noteq> (Inr [0xD800] :: js_error + jsstring)"
  using decrypt_same_key [OF toy_lib_ok toy_iv_length, of "js ''secret''" "js ''secret''" toy_salt "[0xD800]"]
    toy_lib_ok toy_iv_length lone_surrogate_bytes(3)
  by simp








section \<open>Results on the Mongo query interpreter\<close>

lemma parse_query_rejects_other_methods:
  assumes "findMatch (trim q) = None"
    and "collectionMatch (trim q) = Some (c, m, a)"
    and "m \<noteq> js ''aggregate''"
  shows "parse_query q = Inl invalid_format"
  using assms by (simp add: parse_query_def)

lemma parse_query_rejects_no_match:
  assumes "findMatch (trim q) = None" and "collectionMatch (trim q) = None"
  shows "parse_query q = Inl invalid_format"
  using assms by (simp add: parse_query_def)

lemmas mongo_eval_defs =
  mongo_executeQuery_def parse_query_def parse_params_def findMatch_def collectionMatch_def
  match_ident_def match_args_def isWordChar_def trim_def isWhiteSpace_def js_def

text \<open>
  C5, as the code has it. A query that matches the generic pattern with a method other
  than \<open>aggregate\<close>, and not the \<open>find\<close> pattern, is rejected before any collection is
  asked for: the access record is empty. The error is the one error the interpreter has
  for a query it does not run, \<open>Invalid MongoDB query format. Supported operations: find,
  aggregate\<close>, the same that a query matching neither pattern gets.
\<close>

theorem mongo_other_method_rejected:
  assumes "findMatch (trim q) = None"
    and "collectionMatch (trim q) = Some (c, m, a)"
    and "m \<noteq> js ''aggregate''"
    and "findMatch (trim q') = None"
    and "collectionMatch (trim q') = None"
  shows "mongo_executeQuery D h q = (Inl invalid_format, []) \<and>
         mongo_executeQuery D h q' = mongo_executeQuery D h q"
  using assms by (simp add: mongo_executeQuery_def parse_query_def)

theorem mongo_other_method_rejected_witness:
  "mongo_executeQuery stub_mongo 1 (js ''db.users.deleteMany({})'') = (Inl invalid_format, []) \<and>
   mongo_executeQuery stub_mongo 1 (js ''drop everything'') =
     mongo_executeQuery stub_mongo 1 (js ''db.users.deleteMany({})'')"
proof -
  have 1: "findMatch (trim (js ''db.users.deleteMany({})'')) = None"
    by (simp add: mongo_eval_defs)
  have 2: "collectionMatch (trim (js ''db.users.deleteMany({})'')) =
             Some (js ''users'', js ''deleteMany'', js ''{}'')"
    by (simp add: mongo_eval_defs)
  have 3: "js ''deleteMany'' \<noteq> js ''aggregate''"
    by (simp add: js_def)
  have 4: "findMatch (trim (js ''drop everything'')) = None"
    by (simp add: mongo_eval_defs)
  have 5: "collectionMatch (trim (js ''drop everything'')) = None"
    by (simp add: mongo_eval_defs)
  show ?thesis
    using mongo_other_method_rejected [OF 1 2 3 4 5, of stub_mongo 1] by simp
qed

text \<open>
  C5 as the specification states it asks for an error of its own for the unsupported
  method, distinct from the error of a query that matches neither pattern. The query
  \<open>db.users.deleteMany({})\<close> matches the generic pattern and the text \<open>drop everything\<close>
  matches nothing; both are answered with the same error.
\<close>

theorem mongo_unsupported_error_not_distinct:
  "collectionMatch (trim (js ''db.users.deleteMany({})'')) =
     Some (js ''users'', js ''deleteMany'', js ''{}'') \<and>
   findMatch (trim (js ''db.users.deleteMany({})'')) = None \<and>
   collectionMatch (trim (js ''drop everything'')) = None \<and>
   findMatch (trim (js ''drop everything'')) = None \<and>
   fst (mongo_executeQuery stub_mongo 1 (js ''db.users.deleteMany({})'')) =
     fst (mongo_executeQuery stub_mongo 1 (js ''drop everything''))"
  by (simp add: mongo_eval_defs)

section \<open>Results on the SQLite and MySQL variants\<close>

lemma startsWith_iff: "startsWith s p \<longleftrightarrow> (\<exists>rest. s = p @ rest)"
proof -
  have "strip_prefix p s = Some r \<longleftrightarrow> s = p @ r" for r
    by (induction p s rule: strip_prefix.induct) auto
  then show ?thesis
    by (auto simp: startsWith_def)
qed

lemmas sqlite_eval_defs =
  SQLite_executeQuery_def is_read_query_def toUpperCase_def flush_run_def ascii_upper_def
  startsWith_def trim_def isWhiteSpace_def js_def

text \<open>
  C6. With the handle present, a query whose trimmed, upper-cased text begins with
  \<open>SELECT\<close>, \<open>WITH\<close> or \<open>PRAGMA\<close> is prepared and run with \<open>all()\<close>, and its result
  (the rows, or the error of the driver) is the result of the call. Any other query is
  prepared and run with \<open>run()\<close>; when that returns, the result is exactly one row, which
  holds the change count and the last inserted rowid, and when it throws, its error.
\<close>

theorem sqlite_query_classification:
  assumes "db s = Some h"
  shows "((\<exists>rest. toUpperCase R (trim q) = js ''SELECT'' @ rest) \<or>
          (\<exists>rest. toUpperCase R (trim q) = js ''WITH'' @ rest) \<or>
          (\<exists>rest. toUpperCase R (trim q) = js ''PRAGMA'' @ rest))
         = is_read_query R q \<and>
         SQLite_executeQuery R D s q =
           (if is_read_query R q then prepare_all D h q
            else case prepare_run D h q of
                   Inl e \<Rightarrow> Inl e
                 | Inr result \<Rightarrow>
                     Inr [JObj [(js ''changes'', JNum (changes result)),
                                (js ''lastInsertRowid'', JNum (lastInsertRowid result)),
                                (js ''message'',
                                   JStr (js ''Query executed successfully. '' @
                                         ToString (JNum (changes result)) @
                                         js '' row(s) affected.''))]])"
proof -
  have "is_read_query R q \<longleftrightarrow>
          (\<exists>rest. toUpperCase R (trim q) = js ''SELECT'' @ rest) \<or>
          (\<exists>rest. toUpperCase R (trim q) = js ''WITH'' @ rest) \<or>
          (\<exists>rest. toUpperCase R (trim q) = js ''PRAGMA'' @ rest)"
    by (simp add: is_read_query_def Let_def startsWith_iff)
  moreover have "SQLite_executeQuery R D s q =
           (if is_read_query R q then prepare_all D h q
            else case prepare_run D h q of
                   Inl e \<Rightarrow> Inl e
                 | Inr result \<Rightarrow> Inr [sqlite_summary result])"
    using assms by (simp add: SQLite_executeQuery_def)
  ultimately show ?thesis
    unfolding sqlite_summary_def by simp
qed

theorem sqlite_query_classification_witness:
  "\<forall>R.
   SQLite_executeQuery R stub_sqlite \<lparr> sqlite_config = sqlite_file, db = Some 1 \<rparr>
     (js ''  select * from t'') = Inr [JObj [(js ''id'', JNum 7)]] \<and>
   SQLite_executeQuery R stub_sqlite \<lparr> sqlite_config = sqlite_file, db = Some 1 \<rparr>
     (js ''insert into t values (1)'') =
     Inr [JObj [(js ''changes'', JNum 1), (js ''lastInsertRowid'', JNum 42),
                (js ''message'', JStr (js ''Query executed successfully. 1 row(s) affected.''))]]"
proof
  fix R
  let ?s = "\<lparr> sqlite_config = sqlite_file, db = Some (1::nat) \<rparr>"
  have h: "db ?s = Some 1"
    by simp
  have r: "is_read_query R (js ''  select * from t'')"
    by (simp add: is_read_query_def toUpperCase_def flush_run_def ascii_upper_def startsWith_def
          trim_def isWhiteSpace_def js_def)
  have w: "\<not> is_read_query R (js ''insert into t values (1)'')"
    by (simp add: is_read_query_def toUpperCase_def flush_run_def ascii_upper_def startsWith_def
          trim_def isWhiteSpace_def js_def)
  have d: "ToString (JNum 1) = js ''1''"
    by (simp add: decimal.simps js_def)
  show "SQLite_executeQuery R stub_sqlite ?s (js ''  select * from t'') =
          Inr [JObj [(js ''id'', JNum 7)]] \<and>
        SQLite_executeQuery R stub_sqlite ?s (js ''insert into t values (1)'') =
          Inr [JObj [(js ''changes'', JNum 1), (js ''lastInsertRowid'', JNum 42),
                     (js ''message'', JStr (js ''Query executed successfully. 1 row(s) affected.''))]]"
    using sqlite_query_classification [OF h, of R "js ''  select * from t''" stub_sqlite]
      sqlite_query_classification [OF h, of R "js ''insert into t values (1)''" stub_sqlite] r w d
    by (simp add: stub_sqlite_def js_def)
qed

lemma SQLite_disconnect_clears:
  "SQLite_disconnect D s = (None, s') \<Longrightarrow> db s' = None"
  by (auto simp: SQLite_disconnect_def split: option.splits)

lemma MySQL_disconnect_clears:
  "MySQL_disconnect D m = (None, m') \<Longrightarrow> connection m' = None"
  by (auto simp: MySQL_disconnect_def split: option.splits)

lemma SQLite_connect_handle:
  "db (snd (SQLite_connect D s)) = None \<Longrightarrow> fst (SQLite_connect D s) \<noteq> None"
  by (auto simp: SQLite_connect_def SQLite_connect_try_def split: sum.splits option.splits if_splits)

lemma MySQL_connect_handle:
  "connection (snd (MySQL_connect D m)) = None \<Longrightarrow> fst (MySQL_connect D m) \<noteq> None"
  by (auto simp: MySQL_connect_def MySQL_connect_try_def split: sum.splits option.splits)

text \<open>
  C10, as the code has it. The guard of the four methods tests the handle, not the
  outcome of \<open>connect\<close>. While the handle is absent each of them fails with the error
  \<open>connection not established\<close> of its variant and calls nothing of the driver. The
  handle is absent in a new object and after a \<open>disconnect\<close> that returned; a
  \<open>connect\<close> that leaves it absent has failed.
\<close>

theorem not_established_while_handle_absent:
  assumes "db s = None" and "connection m = None"
  shows "SQLite_executeQuery R D s q = Inl sqlite_not_established \<and>
         SQLite_getSchemaVisualization R D s = Inl sqlite_not_established \<and>
         MySQL_executeQuery D' m q = Inl mysql_not_established \<and>
         MySQL_getSchemaVisualization R D' m = Inl mysql_not_established \<and>
         db (SQLite_new c) = None \<and> connection (MySQL_new c) = None \<and>
         (\<forall>s0. fst (SQLite_disconnect D s0) = None \<longrightarrow> db (snd (SQLite_disconnect D s0)) = None) \<and>
         (\<forall>m0. fst (MySQL_disconnect D' m0) = None \<longrightarrow>
                 connection (snd (MySQL_disconnect D' m0)) = None) \<and>
         (\<forall>s0. db (snd (SQLite_connect D s0)) = None \<longrightarrow> fst (SQLite_connect D s0) \<noteq> None) \<and>
         (\<forall>m0. connection (snd (MySQL_connect D' m0)) = None \<longrightarrow> fst (MySQL_connect D' m0) \<noteq> None)"
proof -
  have "SQLite_executeQuery R D s q = Inl sqlite_not_established"
    using assms(1) by (simp add: SQLite_executeQuery_def)
  moreover have "SQLite_getSchemaVisualization R D s = Inl sqlite_not_established"
    using assms(1) by (simp add: SQLite_getSchemaVisualization_def)
  moreover have "MySQL_executeQuery D' m q = Inl mysql_not_established"
    using assms(2) by (simp add: MySQL_executeQuery_def)
  moreover have "MySQL_getSchemaVisualization R D' m = Inl mysql_not_established"
    using assms(2) by (simp add: MySQL_getSchemaVisualization_def)
  moreover have "db (SQLite_new c) = None" "connection (MySQL_new c) = None"
    by (simp_all add: SQLite_new_def MySQL_new_def)
  moreover have "fst (SQLite_disconnect D s0) = None \<longrightarrow> db (snd (SQLite_disconnect D s0)) = None" for s0
    using SQLite_disconnect_clears [of D s0 "snd (SQLite_disconnect D s0)"]
    by (cases "SQLite_disconnect D s0") auto
  moreover have "fst (MySQL_disconnect D' m0) = None \<longrightarrow>
      connection (snd (MySQL_disconnect D' m0)) = None" for m0
    using MySQL_disconnect_clears [of D' m0 "snd (MySQL_disconnect D' m0)"]
    by (cases "MySQL_disconnect D' m0") auto
  ultimately show ?thesis
    using SQLite_connect_handle MySQL_connect_handle by blast
qed

theorem not_established_while_handle_absent_witness:
  "SQLite_executeQuery stub_runtime stub_sqlite (SQLite_new sqlite_file) (js ''select 1'') =
     Inl sqlite_not_established \<and>
   SQLite_getSchemaVisualization stub_runtime stub_sqlite (SQLite_new sqlite_file) =
     Inl sqlite_not_established \<and>
   MySQL_executeQuery stub_mysql (MySQL_new mysql_server) (js ''select 1'') =
     Inl mysql_not_established \<and>
   MySQL_getSchemaVisualization stub_runtime stub_mysql (MySQL_new mysql_server) =
     Inl mysql_not_established \<and>
   db (snd (SQLite_disconnect stub_sqlite (snd (SQLite_connect stub_sqlite (SQLite_new sqlite_file))))) = None"
proof -
  have a: "db (SQLite_new sqlite_file) = None"
    by (simp add: SQLite_new_def)
  have b: "connection (MySQL_new mysql_server) = None"
    by (simp add: MySQL_new_def)
  have c: "fst (SQLite_disconnect stub_sqlite (snd (SQLite_connect stub_sqlite (SQLite_new sqlite_file)))) = None"
    by (simp add: SQLite_disconnect_def stub_sqlite_def split: option.splits)
  show ?thesis
    using not_established_while_handle_absent [OF a b, of stub_runtime stub_sqlite "js ''select 1''" stub_mysql]
      c by blast
qed

text \<open>
  C10 as it is stated promises the error for every call made before a successful
  \<open>connect\<close>. A \<open>connect\<close> that fails after the handle was assigned leaves the handle
  in place: here the file opens, the first pragma throws because the file is not a
  database, and \<open>connect\<close> fails. The next \<open>executeQuery\<close> and
  \<open>getSchemaVisualization\<close> pass the guard and fail with the error of the driver. The
  same holds in the MySQL variant when the server does not answer the ping.
\<close>

theorem failed_connect_keeps_handle:
  "fst (SQLite_connect notadb_sqlite (SQLite_new sqlite_file)) =
     Some (Error (js ''SQLite connection failed: file is not a database'')) \<and>
   SQLite_executeQuery stub_runtime notadb_sqlite
     (snd (SQLite_connect notadb_sqlite (SQLite_new sqlite_file))) (js ''select 1'') =
     Inl not_a_database \<and>
   SQLite_getSchemaVisualization stub_runtime notadb_sqlite
     (snd (SQLite_connect notadb_sqlite (SQLite_new sqlite_file))) = Inl not_a_database \<and>
   not_a_database \<noteq> sqlite_not_established \<and>
   fst (MySQL_connect noping_mysql (MySQL_new mysql_server)) =
     Some (Error (js ''MySQL connection failed: read ECONNRESET'')) \<and>
   MySQL_executeQuery noping_mysql
     (snd (MySQL_connect noping_mysql (MySQL_new mysql_server))) (js ''select 1'') =
     Inl (Error (js ''read ECONNRESET'')) \<and>
   Error (js ''read ECONNRESET'') \<noteq> mysql_not_established"
  by (simp add: SQLite_connect_def SQLite_connect_try_def SQLite_new_def sqlite_file_def
        notadb_sqlite_def connect_pragmas_def SQLite_executeQuery_def is_read_query_def
        toUpperCase_def flush_run_def ascii_upper_def startsWith_def trim_def isWhiteSpace_def
        SQLite_getSchemaVisualization_def not_a_database_def sqlite_not_established_def
        MySQL_connect_def MySQL_connect_try_def MySQL_new_def mysql_server_def noping_mysql_def
        MySQL_executeQuery_def mysql_not_established_def Error_def field_of_def js_or_def js_def)

section \<open>Results on the credential store\<close>

lemma types_distinct:
  "POSTGRESQL \<noteq> MONGODB" "POSTGRESQL \<noteq> MYSQL" "POSTGRESQL \<noteq> SQLITE3"
  "MONGODB \<noteq> MYSQL" "MONGODB \<noteq> SQLITE3" "MYSQL \<noteq> SQLITE3"
  by (simp_all add: POSTGRESQL_def MONGODB_def MYSQL_def SQLITE3_def js_def)

lemma save_with_payload:
  assumes "getConfig config (config_type config) = obj" and "obj \<noteq> JUndefined"
  shows "saveEncryptedConnection L salt iv config key conns =
           (None, conns @ [\<lparr> conn_id = config_id config, conn_name = config_name config,
                              conn_type = config_type config,
                              encryptedConfig = encrypt L salt iv (json_text L obj) key \<rparr>])"
  using assms
  by (cases obj) (simp_all add: saveEncryptedConnection_def JSON_stringify_def getAllConnections_def)

lemma save_without_payload:
  assumes "getConfig config (config_type config) = JUndefined"
  shows "saveEncryptedConnection L salt iv config key conns = (Some data_argument_error, conns)"
  using assms by (simp add: saveEncryptedConnection_def JSON_stringify_def)

lemma config_object_fields:
  "get_prop (config_object config) (js ''type'') = Inr (JStr (config_type config))"
  "field_of (config_object config) (js ''type'') = JStr (config_type config)"
  "field_of (config_object config) (js ''postgresql'') = postgresql config"
  "field_of (config_object config) (js ''mongodb'') = mongodb config"
  "field_of (config_object config) (js ''mysql'') = mysql config"
  "field_of (config_object config) (js ''sqlite3'') = sqlite3 config"
  by (simp_all add: config_object_def field_of_def js_def)

text \<open>The factory on a \<open>ConnectionConfig\<close>: the client of the type, made from the payload
  of the type, and an error for a type that is none of the four.\<close>

lemma factory_of_config:
  "createDatabaseClient E (config_object config) =
     (if config_type config = POSTGRESQL then
        Inr (PostgresqlClient (Postgresql_new (env_pg E) (postgresql config)))
      else if config_type config = MONGODB then
        (case Mongodb_new (env_mongo E) (mongodb config) of
           Inl e \<Rightarrow> Inl e
         | Inr m \<Rightarrow> Inr (MongodbClient m))
      else if config_type config = MYSQL then Inr (MySQLClient (MySQL_new (mysql config)))
      else if config_type config = SQLITE3 then Inr (SQLiteClient (SQLite_new (sqlite3 config)))
      else Inl (unsupported_type (JStr (config_type config))))"
  by (simp add: createDatabaseClient_def config_object_fields)

lemma oracle_is_no_type:
  "js ''oracle'' \<noteq> POSTGRESQL" "js ''oracle'' \<noteq> MONGODB" "js ''oracle'' \<noteq> MYSQL"
  "js ''oracle'' \<noteq> SQLITE3"
  by (simp_all add: POSTGRESQL_def MONGODB_def MYSQL_def SQLITE3_def js_def)

text \<open>
  C4, as the code has it. \<open>saveEncryptedConnection\<close> encrypts the payload that is named
  by the type, for each of the four types, and appends the record (when that payload is
  absent, \<open>encrypt\<close> throws and nothing is written). For any other type it does not
  fail: the payload is \<open>null\<close>, its JSON text is encrypted and the record is appended.
  The error \<open>Unsupported database type\<close> is thrown by the factory
  \<open>createDatabaseClient\<close>, which the handler \<open>SAVE_CONNECTION\<close> calls first: through
  the handler a configuration of another type leaves the state as it was.
\<close>

theorem save_selects_payload_by_type:
  "(config_type config = POSTGRESQL \<and> postgresql config \<noteq> JUndefined \<longrightarrow>
      saveEncryptedConnection L salt iv config key conns =
        (None, conns @ [\<lparr> conn_id = config_id config, conn_name = config_name config,
                         conn_type = config_type config,
                         encryptedConfig = encrypt L salt iv (json_text L (postgresql config)) key \<rparr>])) \<and>
   (config_type config = MONGODB \<and> mongodb config \<noteq> JUndefined \<longrightarrow>
      saveEncryptedConnection L salt iv config key conns =
        (None, conns @ [\<lparr> conn_id = config_id config, conn_name = config_name config,
                         conn_type = config_type config,
                         encryptedConfig = encrypt L salt iv (json_text L (mongodb config)) key \<rparr>])) \<and>
   (config_type config = MYSQL \<and> mysql config \<noteq> JUndefined \<longrightarrow>
      saveEncryptedConnection L salt iv config key conns =
        (None, conns @ [\<lparr> conn_id = config_id config, conn_name = config_name config,
                         conn_type = config_type config,
                         encryptedConfig = encrypt L salt iv (json_text L (mysql config)) key \<rparr>])) \<and>
   (config_type config = SQLITE3 \<and> sqlite3 config \<noteq> JUndefined \<longrightarrow>
      saveEncryptedConnection L salt iv config key conns =
        (None, conns @ [\<lparr> conn_id = config_id config, conn_name = config_name config,
                         conn_type = config_type config,
                         encryptedConfig = encrypt L salt iv (json_text L (sqlite3 config)) key \<rparr>])) \<and>
   (config_type config \<noteq> POSTGRESQL \<and> config_type config \<noteq> MONGODB \<and>
    config_type config \<noteq> MYSQL \<and> config_type config \<noteq> SQLITE3 \<longrightarrow>
      saveEncryptedConnection L salt iv config key conns =
        (None, conns @ [\<lparr> conn_id = config_id config, conn_name = config_name config,
                         conn_type = config_type config,
                         encryptedConfig = encrypt L salt iv (json_text L JNull) key \<rparr>]) \<and>
      SAVE_CONNECTION E salt iv config key st =
        (SAVE_CONNECTION_catch (unsupported_type (JStr (config_type config))), st))"
proof -
  have 1: "config_type config = POSTGRESQL \<Longrightarrow> getConfig config (config_type config) = postgresql config"
    by (simp add: getConfig_def)
  have 2: "config_type config = MONGODB \<Longrightarrow> getConfig config (config_type config) = mongodb config"
    using types_distinct by (simp add: getConfig_def)
  have 3: "config_type config = MYSQL \<Longrightarrow> getConfig config (config_type config) = mysql config"
    using types_distinct by (simp add: getConfig_def)
  have 4: "config_type config = SQLITE3 \<Longrightarrow> getConfig config (config_type config) = sqlite3 config"
    using types_distinct by (simp add: getConfig_def)
  have 5: "config_type config \<noteq> POSTGRESQL \<and> config_type config \<noteq> MONGODB \<and>
           config_type config \<noteq> MYSQL \<and> config_type config \<noteq> SQLITE3 \<Longrightarrow>
           getConfig config (config_type config) = JNull"
    by (simp add: getConfig_def)
  have 6: "config_type config \<noteq> POSTGRESQL \<and> config_type config \<noteq> MONGODB \<and>
           config_type config \<noteq> MYSQL \<and> config_type config \<noteq> SQLITE3 \<Longrightarrow>
           SAVE_CONNECTION E salt iv config key st =
             (SAVE_CONNECTION_catch (unsupported_type (JStr (config_type config))), st)"
    by (simp add: SAVE_CONNECTION_def factory_of_config)
  show ?thesis
    using save_with_payload [OF 1] save_with_payload [OF 2] save_with_payload [OF 3]
      save_with_payload [OF 4] save_with_payload [OF 5, of L salt iv key conns] 6
    by simp
qed

theorem save_selects_payload_by_type_witness:
  "saveEncryptedConnection toy_lib toy_salt toy_iv shop_config (js ''secret'') [] =
     (None, [shop_record]) \<and>
   SAVE_CONNECTION stub_env toy_salt toy_iv oracle_config (js ''secret'') idle_state =
     (Inr (ErrorResponse (js ''Unsupported database type: oracle'') DATABASE_ERROR JUndefined False
             (StackOf (Error (js ''Unsupported database type: oracle'')))), idle_state)"
proof -
  have a: "config_type shop_config = MYSQL \<and> mysql shop_config \<noteq> JUndefined"
    by (simp add: shop_config_def mysql_payload_def)
  have b: "config_type oracle_config \<noteq> POSTGRESQL \<and> config_type oracle_config \<noteq> MONGODB \<and>
           config_type oracle_config \<noteq> MYSQL \<and> config_type oracle_config \<noteq> SQLITE3"
    using oracle_is_no_type by (simp add: oracle_config_def)
  have c: "SAVE_CONNECTION_catch (unsupported_type (JStr (js ''oracle''))) =
             Inr (ErrorResponse (js ''Unsupported database type: oracle'') DATABASE_ERROR JUndefined False
                    (StackOf (Error (js ''Unsupported database type: oracle''))))"
    by (simp add: SAVE_CONNECTION_catch_def unsupported_type_def Error_def respond_database_error_def
          handleDatabaseError_def handleDatabaseError_rest_def code_is_def message_or_def
          formatErrorResponse_def createError_def startsWith_def js_def)
  show ?thesis
    using save_selects_payload_by_type [of shop_config toy_lib toy_salt toy_iv "js ''secret''" "[]"]
      save_selects_payload_by_type [of oracle_config toy_lib toy_salt toy_iv "js ''secret''" "[]"
        stub_env idle_state] a b c
    by (simp add: shop_config_def shop_record_def oracle_config_def stub_env_def)
qed

text \<open>
  C4 as it is stated has \<open>saveEncrypted\<close> fail on an unrecognized type and persist
  nothing. Given a configuration of type \<open>oracle\<close> and an empty store,
  \<open>saveEncryptedConnection\<close> returns and the store holds one record, whose blob is the
  encrypted text of \<open>null\<close>.
\<close>

theorem unrecognized_type_is_persisted:
  "saveEncryptedConnection toy_lib toy_salt toy_iv oracle_config (js ''secret'') [] =
     (None,
      [\<lparr> conn_id = js ''7'', conn_name = js ''Legacy'', conn_type = js ''oracle'',
         encryptedConfig = encrypt toy_lib toy_salt toy_iv (json_text toy_lib JNull) (js ''secret'') \<rparr>])"
  using oracle_is_no_type
  by (simp add: saveEncryptedConnection_def getConfig_def JSON_stringify_def getAllConnections_def
        oracle_config_def)

lemma shop_payload: "getConfig shop_config (config_type shop_config) = mysql_payload"
  using types_distinct by (simp add: getConfig_def shop_config_def)

lemma bare_payload: "getConfig bare_config (config_type bare_config) = JUndefined"
  using types_distinct by (simp add: getConfig_def bare_config_def shop_config_def)

text \<open>
  C9, as the code has it. For every configuration, key and stored list,
  \<open>saveEncryptedConnection\<close> leaves every stored record as it was. When the payload that
  the type names is there (for a type that is none of the four it is \<open>null\<close>), the list
  in the store afterwards is the list before with exactly one record added at its end;
  when that payload is \<open>undefined\<close>, \<open>encrypt\<close> throws and the list is the list before.
  Nothing looks at the ids that are there: saving the same configuration again adds a
  second record with the same id.
\<close>

theorem save_appends_one_record:
  "saveEncryptedConnection L salt iv config key conns =
     (if getConfig config (config_type config) = JUndefined then (Some data_argument_error, conns)
      else (None,
            conns @ [\<lparr> conn_id = config_id config, conn_name = config_name config,
                       conn_type = config_type config,
                       encryptedConfig =
                         encrypt L salt iv (json_text L (getConfig config (config_type config))) key \<rparr>])) \<and>
   snd (saveEncryptedConnection L salt' iv' config key'
          (snd (saveEncryptedConnection L salt iv config key conns))) =
     (if getConfig config (config_type config) = JUndefined then conns
      else conns @ [\<lparr> conn_id = config_id config, conn_name = config_name config,
                       conn_type = config_type config,
                       encryptedConfig =
                         encrypt L salt iv (json_text L (getConfig config (config_type config))) key \<rparr>,
                    \<lparr> conn_id = config_id config, conn_name = config_name config,
                       conn_type = config_type config,
                       encryptedConfig =
                         encrypt L salt' iv' (json_text L (getConfig config (config_type config))) key' \<rparr>])"
proof (cases "getConfig config (config_type config) = JUndefined")
  case True
  then show ?thesis
    by (simp add: save_without_payload)
next
  case False
  then show ?thesis
    by (simp add: save_with_payload [OF refl False])
qed

theorem save_appends_one_record_witness:
  "saveEncryptedConnection toy_lib toy_salt toy_iv shop_config (js ''secret'') [shop_record] =
     (None, [shop_record, shop_record]) \<and>
   snd (saveEncryptedConnection toy_lib toy_salt toy_iv shop_config (js ''secret'')
          [shop_record, shop_record]) = [shop_record, shop_record, shop_record]"
proof -
  have p: "mysql_payload \<noteq> JUndefined"
    by (simp add: mysql_payload_def)
  have r: "\<lparr> conn_id = config_id shop_config, conn_name = config_name shop_config,
              conn_type = config_type shop_config,
              encryptedConfig = encrypt toy_lib toy_salt toy_iv (json_text toy_lib mysql_payload)
                                  (js ''secret'') \<rparr> = shop_record"
    by (simp add: shop_config_def shop_record_def)
  show ?thesis
    using save_appends_one_record [of toy_lib toy_salt toy_iv shop_config "js ''secret''" "[shop_record]"
        toy_salt toy_iv "js ''secret''"]
      save_appends_one_record [of toy_lib toy_salt toy_iv shop_config "js ''secret''"
        "[shop_record, shop_record]" toy_salt toy_iv "js ''secret''"]
    unfolding shop_payload r using p by simp
qed

text \<open>
  C9 as it is stated has one record appended for every configuration. The
  configuration of the example has the type \<open>mysql\<close> and no payload \<open>mysql\<close>:
  \<open>JSON.stringify\<close> returns \<open>undefined\<close>, \<open>encrypt\<close> throws the \<open>TypeError\<close> of \<open>cipher.update\<close>,
  and the store holds the one record it held before.
\<close>

theorem save_without_payload_appends_nothing:
  "config_type bare_config = MYSQL \<and> mysql bare_config = JUndefined \<and>
   saveEncryptedConnection toy_lib toy_salt toy_iv bare_config (js ''secret'') [shop_record] =
     (Some (JsError (js ''TypeError'')
              (js ''The '' @ [0x22] @ js ''data'' @ [0x22] @
               js '' argument must be of type string or an instance of Buffer, TypedArray, or DataView. Received undefined'')
              (JStr (js ''ERR_INVALID_ARG_TYPE''))),
      [shop_record])"
  using save_without_payload [OF bare_payload, of toy_lib toy_salt toy_iv "js ''secret''" "[shop_record]"]
  by (simp add: bare_config_def shop_config_def data_argument_error_def invalid_data_argument_def
        js_def)

section \<open>Results on the handlers\<close>

lemma toy_parse_four_strings:
  "toy_JSON_parse (toy_json_text (JObj [(k1, JStr s), (k2, JStr i), (k3, JStr t), (k4, JStr e)])) =
     Inr (envelope s i t e)"
proof -
  have "toy_json_text (JObj [(k1, JStr s), (k2, JStr i), (k3, JStr t), (k4, JStr e)]) =
          toy_field s @ toy_field i @ toy_field t @ toy_field e @ []"
    by (simp add: toy_json_text_def)
  then show ?thesis
    by (simp add: toy_JSON_parse_def toy_read_field del: append_Nil2)
qed

lemma toy_decrypt_right_key:
  "decrypt toy_lib (encrypt toy_lib toy_salt toy_iv (json_text toy_lib v) key) key =
     Inr (json_text toy_lib v)"
proof -
  have "well_formed (json_text toy_lib v)"
    using toy_lib_ok by (simp add: lib_ok_def)
  moreover have "decrypt toy_lib (encrypt toy_lib toy_salt toy_iv (json_text toy_lib v) key) key =
                   Inr (utf8_decode (utf8_encode (json_text toy_lib v)))"
    by (rule decrypt_same_key [OF toy_lib_ok toy_iv_length refl])
  ultimately show ?thesis
    using utf8_roundtrip by simp
qed

lemma toy_decrypt_wrong_key:
  "decrypt toy_lib (encrypt toy_lib toy_salt toy_iv text (js ''secret'')) (js ''other'') =
     Inl unable_to_authenticate"
proof -
  define k1 where "k1 = scryptSync toy_lib (utf8_encode (js ''secret'')) toy_salt KEY_LENGTH"
  define k2 where "k2 = scryptSync toy_lib (utf8_encode (js ''other'')) toy_salt KEY_LENGTH"
  have ne: "k1 \<noteq> k2"
    by (simp add: k1_def k2_def toy_lib_def KEY_LENGTH_def utf8_encode_def js_def toy_salt_def)
  have lk: "length k1 = length k2"
    by (simp add: k1_def k2_def toy_lib_def)
  have "decipher_init toy_lib k2 toy_iv (snd (gcm_encrypt toy_lib k1 toy_iv (utf8_encode text))) = None"
    by (simp add: toy_lib_def)
  moreover have "gcm_decrypt toy_lib k2 toy_iv (snd (gcm_encrypt toy_lib k1 toy_iv (utf8_encode text)))
                   (fst (gcm_encrypt toy_lib k1 toy_iv (utf8_encode text))) = Inl unable_to_authenticate"
    using ne lk by (simp add: toy_lib_def)
  ultimately show ?thesis
    unfolding decrypt_of_encrypt [OF toy_lib_ok] Let_def k1_def [symmetric] k2_def [symmetric]
    by simp
qed

lemma shop_right_key:
  "getDecryptedConnection toy_lib (js ''1700000000000'') (js ''secret'') [shop_record] =
     Inr (with_payload shop_record
            (envelope (js ''localhost'') (js ''root'') (js ''pw'') (js ''shop'')))"
proof -
  have p: "JSON_parse toy_lib (json_text toy_lib mysql_payload) =
             Inr (envelope (js ''localhost'') (js ''root'') (js ''pw'') (js ''shop''))"
    using toy_parse_four_strings by (simp add: toy_lib_def mysql_payload_def)
  have d: "decrypt toy_lib (encryptedConfig shop_record) (js ''secret'') =
             Inr (json_text toy_lib mysql_payload)"
    using toy_decrypt_right_key by (simp add: shop_record_def)
  show ?thesis
    unfolding getDecryptedConnection_def getAllConnections_def
    by (simp add: d p) (simp add: shop_record_def)
qed

lemma shop_wrong_key:
  "getDecryptedConnection toy_lib (js ''1700000000000'') (js ''other'') [shop_record] =
     Inl failed_to_decrypt"
proof -
  have d: "decrypt toy_lib (encryptedConfig shop_record) (js ''other'') = Inl unable_to_authenticate"
    using toy_decrypt_wrong_key by (simp add: shop_record_def)
  show ?thesis
    unfolding getDecryptedConnection_def getAllConnections_def
    by (simp add: d) (simp add: shop_record_def)
qed

lemma getDecryptedConnection_error_code:
  "getDecryptedConnection L ident key conns = Inl e \<Longrightarrow> code e = JUndefined"
  by (auto simp: getDecryptedConnection_def failed_to_decrypt_def Error_def
        split: option.splits sum.splits)

lemma catch_is_error_response:
  assumes "code e = JUndefined"
  shows "\<exists>m t c r d. CONNECT_DB_catch e = Inr (ErrorResponse m t c r d)"
  using assms
  by (simp add: CONNECT_DB_catch_def respond_database_error_def handleDatabaseError_def
        code_is_def formatErrorResponse_def)

lemma failed_to_decrypt_response:
  "CONNECT_DB_catch failed_to_decrypt =
     Inr (ErrorResponse (js ''Failed to encrypt/decrypt data. Please check your encryption key.'')
            ENCRYPTION_ERROR JUndefined False
            (Details (js ''Failed to decrypt configuration. Wrong encryption key?'')))"
proof -
  have "js_includes (js ''Failed to decrypt configuration. Wrong encryption key?'') (js ''decrypt'')"
    by (simp add: js_def startsWith_def)
  then show ?thesis
    by (simp add: CONNECT_DB_catch_def failed_to_decrypt_def Error_def handleEncryptionError_def
          formatErrorResponse_def createError_def)
qed

lemma catch_not_success: "CONNECT_DB_catch e \<noteq> Inr (SuccessResponse p m)"
  by (auto simp: CONNECT_DB_catch_def respond_database_error_def formatErrorResponse_def
        split: sum.splits)

lemma getSchemaVisualization_installs:
  assumes "getSchemaVisualization E now ident config st = (Inr tables, st')"
  shows "connections st' = connections st \<and>
         (\<exists>entry. ACTIVE_CLIENTS st' ident = Some entry \<and> ci_tables entry = Some tables)"
  using assms
  by (auto simp: getSchemaVisualization_def did_def split: sum.splits prod.splits option.splits)

text \<open>Two calls in a row: when a call of \<open>CONNECT_DB\<close> has succeeded, the next call
  with the same id and key returns the same schema and changes nothing.\<close>

lemma connect_twice:
  assumes "CONNECT_DB E now ident key st = (Inr (SuccessResponse p m), st')"
  shows "CONNECT_DB E now' ident key st' = (Inr (SuccessResponse p None), st')"
proof (cases "getDecryptedConnection (env_lib E) ident key (connections st)")
  case (Inl error)
  then show ?thesis
    using assms catch_not_success by (simp add: CONNECT_DB_def)
next
  case (Inr config)
  show ?thesis
  proof (cases "ACTIVE_CLIENTS st ident")
    case (Some existing)
    then show ?thesis
      using assms Inr
      by (auto simp: CONNECT_DB_def getActiveClient_def formatSuccessResponse_def)
  next
    case None
    obtain r st1 where g: "getSchemaVisualization E now ident config st = (r, st1)"
      by (cases "getSchemaVisualization E now ident config st")
    show ?thesis
    proof (cases r)
      case (Inl error)
      then show ?thesis
        using assms Inr None g catch_not_success
        by (simp add: CONNECT_DB_def getActiveClient_def)
    next
      case tabs: (Inr tables)
      have eq: "st' = st1" "p = tables_payload tables"
        using assms Inr None g tabs
        by (simp_all add: CONNECT_DB_def getActiveClient_def formatSuccessResponse_def)
      obtain entry where i: "connections st1 = connections st"
        "ACTIVE_CLIENTS st1 ident = Some entry" "ci_tables entry = Some tables"
        using getSchemaVisualization_installs g tabs by blast
      show ?thesis
        using Inr i eq
        by (simp add: CONNECT_DB_def getActiveClient_def formatSuccessResponse_def)
    qed
  qed
qed

text \<open>
  C3, as the code has it. \<open>CONNECT_DB\<close> decrypts the stored record first and looks for a
  live entry after. When the id has a live entry, no call constructs a client and the
  state (registry, store, record of effects) is left as it was; the response is the
  cached schema of the entry when the stored record is there and decrypts under the
  key that was given, and an error response when the record is missing or does not
  decrypt.
\<close>

theorem connect_with_live_entry:
  assumes "ACTIVE_CLIENTS st ident = Some entry"
  shows "snd (CONNECT_DB E now ident key st) = st \<and>
         (case getDecryptedConnection (env_lib E) ident key (connections st) of
            Inr config \<Rightarrow>
              fst (CONNECT_DB E now ident key st) =
                Inr (SuccessResponse
                       [(js ''tables'', JArr (case ci_tables entry of None \<Rightarrow> [] | Some t \<Rightarrow> t))] None)
          | Inl error \<Rightarrow>
              fst (CONNECT_DB E now ident key st) = CONNECT_DB_catch error \<and>
              (\<exists>m t c r d. CONNECT_DB_catch error = Inr (ErrorResponse m t c r d)))"
proof (cases "getDecryptedConnection (env_lib E) ident key (connections st)")
  case (Inl error)
  then show ?thesis
    using catch_is_error_response [OF getDecryptedConnection_error_code [OF Inl]]
    by (simp add: CONNECT_DB_def)
next
  case (Inr config)
  then show ?thesis
    using assms
    by (simp add: CONNECT_DB_def getActiveClient_def formatSuccessResponse_def tables_payload_def)
qed

theorem connect_with_live_entry_witness:
  "CONNECT_DB stub_env 9 (js ''1700000000000'') (js ''secret'') live_state =
     (Inr (SuccessResponse [(js ''tables'', JArr [JObj [(js ''name'', JStr (js ''orders''))]])] None),
      live_state)"
proof -
  have e: "ACTIVE_CLIENTS live_state (js ''1700000000000'') = Some shop_entry"
    by (simp add: live_state_def)
  have k: "getDecryptedConnection (env_lib stub_env) (js ''1700000000000'') (js ''secret'')
             (connections live_state) =
           Inr (with_payload shop_record
                  (envelope (js ''localhost'') (js ''root'') (js ''pw'') (js ''shop'')))"
    using shop_right_key by (simp add: stub_env_def live_state_def)
  show ?thesis
    using connect_with_live_entry [OF e, of stub_env 9 "js ''secret''"]
    unfolding k by (simp add: shop_entry_def prod_eq_iff)
qed

text \<open>
  C3 as it is stated returns the cached schema on every call for an id with a live
  entry. The id of the example has a live entry and its record is in the store; a call
  with another key than the one the record was encrypted with is answered with an
  encryption error.
\<close>

theorem connect_with_live_entry_wrong_key:
  "ACTIVE_CLIENTS live_state (js ''1700000000000'') = Some shop_entry \<and>
   CONNECT_DB stub_env 9 (js ''1700000000000'') (js ''other'') live_state =
     (Inr (ErrorResponse (js ''Failed to encrypt/decrypt data. Please check your encryption key.'')
             ENCRYPTION_ERROR JUndefined False
             (Details (js ''Failed to decrypt configuration. Wrong encryption key?''))),
      live_state)"
proof -
  have k: "getDecryptedConnection (env_lib stub_env) (js ''1700000000000'') (js ''other'')
             (connections live_state) = Inl failed_to_decrypt"
    using shop_wrong_key by (simp add: stub_env_def live_state_def)
  show ?thesis
    by (simp add: CONNECT_DB_def k failed_to_decrypt_response) (simp add: live_state_def)
qed

text \<open>
  C7. For an id with no live entry, \<open>RUN_QUERY\<close> answers at once with the error
  response of type \<open>CONNECTION_ERROR\<close> and code \<open>NO_ACTIVE_CONNECTION\<close>, retryable;
  the state is unchanged: no entry is added to the registry, no client is constructed
  or connected, and nothing is written to the history.
\<close>

theorem run_query_without_connection:
  assumes "ACTIVE_CLIENTS st ident = None"
  shows "RUN_QUERY E elapsed ident query st =
           (Inr (ErrorResponse
                   (js ''No active database connection found. Please connect to a database first.'')
                   CONNECTION_ERROR (JStr (js ''NO_ACTIVE_CONNECTION'')) True NoDetails), st)"
  using assms
  by (simp add: RUN_QUERY_def getActiveClient_def no_active_connection_def formatErrorResponse_def
        createError_def)

theorem run_query_without_connection_witness:
  "RUN_QUERY stub_env (js ''0.12'') (js ''1700000000000'') (js ''select 1'') idle_state =
     (Inr (ErrorResponse
             (js ''No active database connection found. Please connect to a database first.'')
             CONNECTION_ERROR (JStr (js ''NO_ACTIVE_CONNECTION'')) True NoDetails), idle_state)"
proof -
  have "ACTIVE_CLIENTS idle_state (js ''1700000000000'') = None"
    by (simp add: idle_state_def)
  then show ?thesis
    by (rule run_query_without_connection)
qed

text \<open>
  \<open>DELETE_CONNECTION\<close> succeeds for every id. It leaves the store without any record
  of the id and the other records as they were, and the registry without an entry for
  the id and the other entries as they were. When there was a live entry it is deleted
  from the registry before the store is written; \<open>disconnect\<close> is called before that
  only for an entry of type \<open>postgresql\<close>.
\<close>

lemma delete_connection_registry_and_store:
  "fst (DELETE_CONNECTION E ident st) =
     Inr (SuccessResponse [] (Some (js ''Connection deleted successfully''))) \<and>
   connections (snd (DELETE_CONNECTION E ident st)) =
     filter (\<lambda>conn. conn_id conn \<noteq> ident) (connections st) \<and>
   ACTIVE_CLIENTS (snd (DELETE_CONNECTION E ident st)) = (ACTIVE_CLIENTS st)(ident := None) \<and>
   history (snd (DELETE_CONNECTION E ident st)) = history st \<and>
   effects (snd (DELETE_CONNECTION E ident st)) =
     effects st @
     (case ACTIVE_CLIENTS st ident of
        None \<Rightarrow> []
      | Some entry \<Rightarrow>
          (if ci_type entry = JStr POSTGRESQL then
             (case fst (DatabaseClient_disconnect E (ci_client entry)) of
                None \<Rightarrow> [ClientDisconnected ident]
              | Some err \<Rightarrow> [ErrorLogged err])
           else []) @
          [RegistryDelete ident]) @
     [StoreSet]"
proof (cases "ACTIVE_CLIENTS st ident")
  case None
  then have "(ACTIVE_CLIENTS st)(ident := None) = ACTIVE_CLIENTS st"
    by (simp add: fun_upd_idem)
  then show ?thesis
    using None
    by (simp add: DELETE_CONNECTION_def getActiveClient_def did_def deleteConnection_def
          getAllConnections_def formatSuccessResponse_def Let_def)
next
  case (Some entry)
  then show ?thesis
    by (simp add: DELETE_CONNECTION_def getActiveClient_def removeActiveClient_def did_def
          deleteConnection_def getAllConnections_def formatSuccessResponse_def Let_def)
qed

text \<open>For an entry of any other type than \<open>postgresql\<close> the drivers are not called at
  all: the outcome is the same in every environment, and the client of the entry is
  dropped as it is.\<close>

lemma delete_calls_no_driver:
  assumes "ACTIVE_CLIENTS st ident = Some entry" and "ci_type entry \<noteq> JStr POSTGRESQL"
  shows "DELETE_CONNECTION E ident st = DELETE_CONNECTION E' ident st"
    and "effects (snd (DELETE_CONNECTION E ident st)) = effects st @ [RegistryDelete ident, StoreSet]"
  using assms
  by (simp_all add: DELETE_CONNECTION_def getActiveClient_def removeActiveClient_def did_def Let_def)

text \<open>
  C8 on the code. The state of the example has a live entry of type \<open>mysql\<close> whose
  client holds an open connection. \<open>DELETE_CONNECTION\<close> answers with success, the record
  is gone from the store and the entry from the registry, but \<open>disconnect\<close> was never
  called: the entry is dropped with its connection open, although \<open>disconnect\<close> on that
  client returns and releases the handle. The same call for a live entry of type
  \<open>postgresql\<close> disconnects the client before it deletes the entry.
\<close>

theorem delete_leaves_connection_open:
  "ACTIVE_CLIENTS live_state (js ''1700000000000'') = Some shop_entry \<and>
   ci_client shop_entry = MySQLClient \<lparr> mysql_config = mysql_payload, connection = Some 1 \<rparr> \<and>
   DELETE_CONNECTION stub_env (js ''1700000000000'') live_state =
     (Inr (SuccessResponse [] (Some (js ''Connection deleted successfully''))),
      \<lparr> connections = [], ACTIVE_CLIENTS = Map.empty, history = [], maxHistoryItems = 1000,
        effects = [RegistryDelete (js ''1700000000000''), StoreSet] \<rparr>) \<and>
   DatabaseClient_disconnect stub_env (ci_client shop_entry) =
     (None, MySQLClient \<lparr> mysql_config = mysql_payload, connection = None \<rparr>) \<and>
   DELETE_CONNECTION stub_env (js ''1700000000001'') ledger_state =
     (Inr (SuccessResponse [] (Some (js ''Connection deleted successfully''))),
      \<lparr> connections = [], ACTIVE_CLIENTS = Map.empty, history = [], maxHistoryItems = 1000,
        effects = [ClientDisconnected (js ''1700000000001''),
                   RegistryDelete (js ''1700000000001''), StoreSet] \<rparr>)"
proof -
  have a: "ACTIVE_CLIENTS live_state (js ''1700000000000'') = Some shop_entry"
    by (simp add: live_state_def)
  have b: "ci_client shop_entry = MySQLClient \<lparr> mysql_config = mysql_payload, connection = Some 1 \<rparr>"
    by (simp add: shop_entry_def)
  have c: "DELETE_CONNECTION stub_env (js ''1700000000000'') live_state =
     (Inr (SuccessResponse [] (Some (js ''Connection deleted successfully''))),
      \<lparr> connections = [], ACTIVE_CLIENTS = Map.empty, history = [], maxHistoryItems = 1000,
        effects = [RegistryDelete (js ''1700000000000''), StoreSet] \<rparr>)"
    using types_distinct
    by (simp add: DELETE_CONNECTION_def getActiveClient_def removeActiveClient_def did_def Let_def
          deleteConnection_def getAllConnections_def formatSuccessResponse_def live_state_def
          shop_entry_def shop_record_def)
  have d: "DatabaseClient_disconnect stub_env (ci_client shop_entry) =
             (None, MySQLClient \<lparr> mysql_config = mysql_payload, connection = None \<rparr>)"
    by (simp add: shop_entry_def MySQL_disconnect_def stub_env_def stub_mysql_def)
  have e: "DELETE_CONNECTION stub_env (js ''1700000000001'') ledger_state =
     (Inr (SuccessResponse [] (Some (js ''Connection deleted successfully''))),
      \<lparr> connections = [], ACTIVE_CLIENTS = Map.empty, history = [], maxHistoryItems = 1000,
        effects = [ClientDisconnected (js ''1700000000001''),
                   RegistryDelete (js ''1700000000001''), StoreSet] \<rparr>)"
    by (simp add: DELETE_CONNECTION_def getActiveClient_def removeActiveClient_def did_def Let_def
          deleteConnection_def getAllConnections_def formatSuccessResponse_def ledger_state_def
          ledger_entry_def ledger_record_def Postgresql_disconnect_def stub_env_def stub_pg_def)
  show ?thesis
    using a b c d e by simp
qed

end
